theory Spec2Isabelle
  imports Main "HOL-Library.Word"
begin

unbundle bit_operations_syntax

section \<open>Data model of the VC5 resource layout (vc5\_resource.c)\<close>

text \<open>
  All sizes, offsets and dimensions of the layout code are \<open>uint32_t\<close>: they are
  32-bit words here, so that \<open>+\<close>, \<open>-\<close> and \<open>*\<close> wrap around as in C.
\<close>

type_synonym u32 = "32 word"

datatype vc5_tiling_mode =
    VC5_TILING_RASTER
  | VC5_TILING_LINEARTILE
  | VC5_TILING_UBLINEAR_1_COLUMN
  | VC5_TILING_UBLINEAR_2_COLUMN
  | VC5_TILING_UIF_NO_XOR
  | VC5_TILING_UIF_XOR

datatype pipe_texture_target =
    PIPE_BUFFER
  | PIPE_TEXTURE_1D
  | PIPE_TEXTURE_2D
  | PIPE_TEXTURE_3D
  | PIPE_TEXTURE_CUBE
  | PIPE_TEXTURE_RECT
  | PIPE_TEXTURE_1D_ARRAY
  | PIPE_TEXTURE_2D_ARRAY
  | PIPE_TEXTURE_CUBE_ARRAY

datatype v3d_internal_bpp =
    V3D_INTERNAL_BPP_32
  | V3D_INTERNAL_BPP_64
  | V3D_INTERNAL_BPP_128

text \<open>
  The hardware constants \<open>VC5_UIFCFG_PAGE_SIZE\<close>, \<open>VC5_PAGE_CACHE_SIZE\<close>,
  \<open>VC5_UIFBLOCK_ROW_SIZE\<close> and the tables \<open>vc5_utile_width\<close>,
  \<open>vc5_utile_height\<close> are declared in headers that are not part of the sources at
  hand (vc5\_screen.h, vc5\_tiling.c). They are parameters of the model, collected in
  one record, and every function of the layout code takes that record.
\<close>

record vc5_hw =
  VC5_UIFCFG_PAGE_SIZE :: u32
  VC5_PAGE_CACHE_SIZE :: u32
  VC5_UIFBLOCK_ROW_SIZE :: u32
  vc5_utile_width :: "u32 \<Rightarrow> u32"
  vc5_utile_height :: "u32 \<Rightarrow> u32"

text \<open>
  What \<open>util_format_get_blockwidth\<close>, \<open>util_format_get_blockheight\<close>,
  \<open>util_format_get_blocksize\<close>, \<open>util_format_is_depth_or_stencil\<close>,
  \<open>vc5_rt_format_supported\<close> and
  \<open>vc5_get_internal_type_bpp_for_output_format\<close> answer for the format of a
  resource (the format catalogue is not part of the sources at hand).
\<close>

record pipe_format =
  format_blockwidth :: u32
  format_blockheight :: u32
  format_blocksize :: u32
  format_is_depth_or_stencil :: bool
  format_rt_supported :: bool
  format_internal_bpp :: v3d_internal_bpp

record pipe_resource =
  target :: pipe_texture_target
  format :: pipe_format
  width0 :: u32
  height0 :: u32
  depth0 :: u32
  array_size :: u32
  last_level :: nat
  nr_samples :: u32

text \<open>\<open>struct vc5_resource_slice\<close>; its field \<open>size\<close> is \<open>slice_size\<close> here.\<close>

record vc5_resource_slice =
  offset :: u32
  stride :: u32
  padded_height :: u32
  ub_pad :: u32
  slice_size :: u32
  tiling :: vc5_tiling_mode

text \<open>
  \<open>struct vc5_resource\<close>; its field \<open>size\<close> is \<open>rsc_size\<close> here. The array
  \<open>slices\<close> is a store from the level index to the slice; a buffer object is known
  by its handle.
\<close>

type_synonym vc5_bo = nat

record vc5_resource =
  base :: pipe_resource
  bo :: "vc5_bo option"
  slices :: "nat \<Rightarrow> vc5_resource_slice"
  cube_map_stride :: u32
  rsc_size :: u32
  cpp :: u32
  tiled :: bool

section \<open>Helpers of util/u\_math.h\<close>

text \<open>
  Modelled from the spec: \<open>u_minify\<close>, \<open>util_next_power_of_two\<close>, \<open>align\<close> and
  \<open>DIV_ROUND_UP\<close> of util/u\_math.h and util/macros.h, which are missing from the
  sources at hand. The spec names them ("minified by \<open>2^level\<close>", "power-of-two-padded",
  "align", "rounded up to format block granularity"); they are written here on 32-bit
  words: a level dimension never drops below 1, the next power of two of 0 or 1 is 1,
  and \<open>align\<close> rounds up with the mask of a power-of-two alignment.
\<close>

definition u_minify :: "u32 \<Rightarrow> nat \<Rightarrow> u32" where
  "u_minify v levels = max 1 (drop_bit levels v)"

definition util_next_power_of_two :: "u32 \<Rightarrow> u32" where
  "util_next_power_of_two x =
     (if x \<le> 1 then 1
      else
        let v0 = x - 1;
            v1 = v0 OR drop_bit 1 v0;
            v2 = v1 OR drop_bit 2 v1;
            v3 = v2 OR drop_bit 4 v2;
            v4 = v3 OR drop_bit 8 v3;
            v5 = v4 OR drop_bit 16 v4
        in v5 + 1)"

definition align :: "u32 \<Rightarrow> u32 \<Rightarrow> u32" where
  "align v alignment = (v + alignment - 1) AND NOT (alignment - 1)"

definition DIV_ROUND_UP :: "u32 \<Rightarrow> u32 \<Rightarrow> u32" where
  "DIV_ROUND_UP a b = (a + b - 1) div b"

section \<open>UIF block padding: \<open>vc5_get_ub_pad\<close>\<close>

definition PAGE_UB_ROWS :: "vc5_hw \<Rightarrow> u32" where
  "PAGE_UB_ROWS hw = VC5_UIFCFG_PAGE_SIZE hw div VC5_UIFBLOCK_ROW_SIZE hw"

definition PAGE_UB_ROWS_TIMES_1_5 :: "vc5_hw \<Rightarrow> u32" where
  "PAGE_UB_ROWS_TIMES_1_5 hw = drop_bit 1 (PAGE_UB_ROWS hw * 3)"

definition PAGE_CACHE_UB_ROWS :: "vc5_hw \<Rightarrow> u32" where
  "PAGE_CACHE_UB_ROWS hw = VC5_PAGE_CACHE_SIZE hw div VC5_UIFBLOCK_ROW_SIZE hw"

definition PAGE_CACHE_MINUS_1_5_UB_ROWS :: "vc5_hw \<Rightarrow> u32" where
  "PAGE_CACHE_MINUS_1_5_UB_ROWS hw = PAGE_CACHE_UB_ROWS hw - PAGE_UB_ROWS_TIMES_1_5 hw"

definition vc5_get_ub_pad :: "vc5_hw \<Rightarrow> vc5_resource \<Rightarrow> u32 \<Rightarrow> u32" where
  "vc5_get_ub_pad hw rsc height =
     (let utile_h = vc5_utile_height hw (cpp rsc);
          uif_block_h = utile_h * 2;
          height_ub = height div uif_block_h;
          height_offset_in_pc = height_ub mod PAGE_CACHE_UB_ROWS hw
      in
        if height_offset_in_pc = 0 then 0
        else if height_offset_in_pc < PAGE_UB_ROWS_TIMES_1_5 hw then
          (if height_ub < PAGE_CACHE_UB_ROWS hw then 0
           else PAGE_UB_ROWS_TIMES_1_5 hw - height_offset_in_pc)
        else if height_offset_in_pc > PAGE_CACHE_MINUS_1_5_UB_ROWS hw then
          PAGE_CACHE_UB_ROWS hw - height_offset_in_pc
        else 0)"

section \<open>Slice layout: \<open>vc5_setup_slices\<close>\<close>

text \<open>
  The body of the loop over the mip levels, in the order of the source: the level's
  dimensions before any alignment (\<open>level_dims\<close>), the doubling for MSAA and the
  division by the format's block (\<open>level_blocks\<close>), the choice of the tiling with its
  padding (\<open>level_tiling\<close>), and the store into the slice with the advance of the
  running offset (\<open>setup_slice\<close>).
\<close>

definition level_dims :: "vc5_resource \<Rightarrow> nat \<Rightarrow> u32 \<times> u32 \<times> u32" where
  "level_dims rsc i =
     (let prsc = base rsc;
          width = width0 prsc;
          height = height0 prsc;
          depth = depth0 prsc;
          pot_width = 2 * util_next_power_of_two (u_minify width 1);
          pot_height = 2 * util_next_power_of_two (u_minify height 1);
          pot_depth = 2 * util_next_power_of_two (u_minify depth 1);
          level_width = (if i < 2 then u_minify width i else u_minify pot_width i);
          level_height = (if i < 2 then u_minify height i else u_minify pot_height i);
          level_depth = (if i < 1 then u_minify depth i else u_minify pot_depth i)
      in (level_width, level_height, level_depth))"

definition level_depth :: "vc5_resource \<Rightarrow> nat \<Rightarrow> u32" where
  "level_depth rsc i = snd (snd (level_dims rsc i))"

definition level_blocks :: "vc5_resource \<Rightarrow> nat \<Rightarrow> u32 \<times> u32" where
  "level_blocks rsc i =
     (let prsc = base rsc;
          block_width = format_blockwidth (format prsc);
          block_height = format_blockheight (format prsc);
          msaa = (nr_samples prsc > 1);
          level_width = fst (level_dims rsc i);
          level_height = fst (snd (level_dims rsc i));
          level_width = (if msaa then level_width * 2 else level_width);
          level_height = (if msaa then level_height * 2 else level_height)
      in (DIV_ROUND_UP level_width block_width, DIV_ROUND_UP level_height block_height))"

text \<open>
  What the tiling branch decides for a level: the tiling mode, the value stored into
  \<open>ub_pad\<close> (the source stores one in the UIF case only), and the padded width and
  height.
\<close>

record level_class =
  lc_tiling :: vc5_tiling_mode
  lc_ub_pad :: "u32 option"
  lc_width :: u32
  lc_height :: u32

definition level_tiling :: "vc5_hw \<Rightarrow> vc5_resource \<Rightarrow> nat \<Rightarrow> u32 \<Rightarrow> u32 \<Rightarrow> level_class" where
  "level_tiling hw rsc i level_width level_height =
     (let prsc = base rsc;
          utile_w = vc5_utile_width hw (cpp rsc);
          utile_h = vc5_utile_height hw (cpp rsc);
          uif_block_w = utile_w * 2;
          uif_block_h = utile_h * 2;
          msaa = (nr_samples prsc > 1);
          uif_top = msaa
      in
        if \<not> tiled rsc then
          \<lparr>lc_tiling = VC5_TILING_RASTER, lc_ub_pad = None,
           lc_width = (if target prsc = PIPE_TEXTURE_1D
                       then align level_width (64 div cpp rsc) else level_width),
           lc_height = level_height\<rparr>
        else if (i \<noteq> 0 \<or> \<not> uif_top) \<and>
                (level_width \<le> utile_w \<or> level_height \<le> utile_h) then
          \<lparr>lc_tiling = VC5_TILING_LINEARTILE, lc_ub_pad = None,
           lc_width = align level_width utile_w,
           lc_height = align level_height utile_h\<rparr>
        else if (i \<noteq> 0 \<or> \<not> uif_top) \<and> level_width \<le> uif_block_w then
          \<lparr>lc_tiling = VC5_TILING_UBLINEAR_1_COLUMN, lc_ub_pad = None,
           lc_width = align level_width uif_block_w,
           lc_height = align level_height uif_block_h\<rparr>
        else if (i \<noteq> 0 \<or> \<not> uif_top) \<and> level_width \<le> 2 * uif_block_w then
          \<lparr>lc_tiling = VC5_TILING_UBLINEAR_2_COLUMN, lc_ub_pad = None,
           lc_width = align level_width (2 * uif_block_w),
           lc_height = align level_height uif_block_h\<rparr>
        else
          (let level_width = align level_width (4 * uif_block_w);
               level_height = align level_height uif_block_h;
               pad = vc5_get_ub_pad hw rsc level_height;
               level_height = level_height + pad * uif_block_h
           in
             \<lparr>lc_tiling =
                (if (level_height div uif_block_h) mod
                    (VC5_PAGE_CACHE_SIZE hw div VC5_UIFBLOCK_ROW_SIZE hw) = 0
                 then VC5_TILING_UIF_XOR else VC5_TILING_UIF_NO_XOR),
              lc_ub_pad = Some pad,
              lc_width = level_width,
              lc_height = level_height\<rparr>))"

definition level_layout :: "vc5_hw \<Rightarrow> vc5_resource \<Rightarrow> nat \<Rightarrow> level_class" where
  "level_layout hw rsc i =
     level_tiling hw rsc i (fst (level_blocks rsc i)) (snd (level_blocks rsc i))"

definition setup_slice :: "vc5_hw \<Rightarrow> vc5_resource \<Rightarrow> nat \<Rightarrow> u32 \<Rightarrow> vc5_resource \<times> u32" where
  "setup_slice hw rsc i offs =
     (let uif_block_w = vc5_utile_width hw (cpp rsc) * 2;
          uif_block_h = vc5_utile_height hw (cpp rsc) * 2;
          lc = level_layout hw rsc i;
          old = slices rsc i;
          level_width = lc_width lc;
          level_height = lc_height lc;
          slice_stride = level_width * cpp rsc;
          slice =
            \<lparr>offset = offs,
             stride = slice_stride,
             padded_height = level_height,
             ub_pad = (case lc_ub_pad lc of None \<Rightarrow> ub_pad old | Some p \<Rightarrow> p),
             slice_size = level_height * slice_stride,
             tiling = lc_tiling lc\<rparr>;
          slice_total_size = slice_size slice * level_depth rsc i;
          slice_total_size =
            (if i = 1 \<and> level_width > 4 * uif_block_w \<and>
                level_height > PAGE_CACHE_MINUS_1_5_UB_ROWS hw * uif_block_h
             then align slice_total_size (VC5_UIFCFG_PAGE_SIZE hw)
             else slice_total_size)
      in (rsc\<lparr>slices := (slices rsc)(i := slice)\<rparr>, offs + slice_total_size))"

text \<open>The loop \<open>for (int i = prsc->last_level; i >= 0; i--)\<close>, entered at level \<open>i\<close>.\<close>

fun setup_levels :: "vc5_hw \<Rightarrow> nat \<Rightarrow> vc5_resource \<times> u32 \<Rightarrow> vc5_resource \<times> u32" where
  "setup_levels hw 0 (rsc, offs) = setup_slice hw rsc 0 offs"
| "setup_levels hw (Suc i) (rsc, offs) = setup_levels hw i (setup_slice hw rsc (Suc i) offs)"

text \<open>The loop and the assignment \<open>rsc->size = offset\<close> after it.\<close>

definition accumulate_levels :: "vc5_hw \<Rightarrow> vc5_resource \<Rightarrow> vc5_resource" where
  "accumulate_levels hw rsc =
     (case setup_levels hw (last_level (base rsc)) (rsc, 0) of
        (rsc', offs) \<Rightarrow> rsc'\<lparr>rsc_size := offs\<rparr>)"

text \<open>
  The loop \<open>for (int i = 0; i <= prsc->last_level; i++)
  rsc->slices[i].offset += page_align_offset\<close>, up to level \<open>n\<close>.
\<close>

fun add_page_align_offset ::
  "u32 \<Rightarrow> nat \<Rightarrow> (nat \<Rightarrow> vc5_resource_slice) \<Rightarrow> (nat \<Rightarrow> vc5_resource_slice)" where
  "add_page_align_offset p 0 sl = sl(0 := (sl 0)\<lparr>offset := offset (sl 0) + p\<rparr>)"
| "add_page_align_offset p (Suc n) sl =
     (let sl' = add_page_align_offset p n sl
      in sl'(Suc n := (sl' (Suc n))\<lparr>offset := offset (sl' (Suc n)) + p\<rparr>))"

definition page_align_slices :: "vc5_resource \<Rightarrow> vc5_resource" where
  "page_align_slices rsc =
     (let page_align_offset =
            align (offset (slices rsc 0)) 4096 - offset (slices rsc 0)
      in
        if page_align_offset \<noteq> 0 then
          rsc\<lparr>rsc_size := rsc_size rsc + page_align_offset,
              slices := add_page_align_offset page_align_offset
                          (last_level (base rsc)) (slices rsc)\<rparr>
        else rsc)"

definition setup_cube_map_stride :: "vc5_resource \<Rightarrow> vc5_resource" where
  "setup_cube_map_stride rsc =
     (if target (base rsc) \<noteq> PIPE_TEXTURE_3D then
        (let cms = align (offset (slices rsc 0) + slice_size (slices rsc 0)) 64
         in rsc\<lparr>cube_map_stride := cms,
                rsc_size := rsc_size rsc + cms * (array_size (base rsc) - 1)\<rparr>)
      else rsc\<lparr>cube_map_stride := slice_size (slices rsc 0)\<rparr>)"

definition vc5_setup_slices :: "vc5_hw \<Rightarrow> vc5_resource \<Rightarrow> vc5_resource" where
  "vc5_setup_slices hw rsc =
     setup_cube_map_stride (page_align_slices (accumulate_levels hw rsc))"

section \<open>\<open>vc5_layer_offset\<close>\<close>

definition vc5_layer_offset :: "vc5_resource \<Rightarrow> nat \<Rightarrow> u32 \<Rightarrow> u32" where
  "vc5_layer_offset rsc level layer =
     (let slice = slices rsc level
      in if target (base rsc) = PIPE_TEXTURE_3D
         then offset slice + layer * slice_size slice
         else offset slice + layer * cube_map_stride rsc)"

section \<open>Import of an external resource: \<open>vc5_resource_from_handle\<close>\<close>

text \<open>
  Every way in which the import returns \<open>NULL\<close> is an error value of its own: the
  allocation of the resource failed, an assertion of \<open>vc5_resource_setup\<close> failed,
  the modifier is not linear, the winsys offset is not 0, the handle type is neither
  shared nor a file descriptor, the buffer object could not be opened, and the stride of
  the handle is not the stride of level 0.
\<close>

datatype import_error =
    OutOfMemory
  | AssertionFailed
  | UnsupportedModifier
  | UnsupportedOffset
  | UnsupportedHandleType
  | BoOpenFailed
  | IncompatibleLayout

datatype drm_api_handle_type =
    DRM_API_HANDLE_TYPE_SHARED
  | DRM_API_HANDLE_TYPE_KMS
  | DRM_API_HANDLE_TYPE_FD

record winsys_handle =
  wh_type :: drm_api_handle_type
  wh_handle :: u32
  wh_stride :: u32
  wh_offset :: u32
  wh_modifier :: "64 word"

text \<open>
  What the import takes from outside the layout code: whether \<open>CALLOC_STRUCT\<close>
  returns memory, the modifier \<open>DRM_FORMAT_MOD_LINEAR\<close> of drm\_fourcc.h, and the
  two functions of the buffer manager that open a buffer object (\<open>None\<close> is
  \<open>NULL\<close>).
\<close>

record import_env =
  calloc_ok :: bool
  DRM_FORMAT_MOD_LINEAR :: "64 word"
  vc5_bo_open_name :: "u32 \<Rightarrow> u32 \<Rightarrow> vc5_bo option"
  vc5_bo_open_dmabuf :: "u32 \<Rightarrow> u32 \<Rightarrow> vc5_bo option"

text \<open>The slice of a resource that \<open>CALLOC_STRUCT\<close> has just zeroed.\<close>

definition calloc_slice :: vc5_resource_slice where
  "calloc_slice =
     \<lparr>offset = 0, stride = 0, padded_height = 0, ub_pad = 0, slice_size = 0,
      tiling = VC5_TILING_RASTER\<rparr>"

definition vc5_resource_setup :: "import_env \<Rightarrow> pipe_resource \<Rightarrow> import_error + vc5_resource" where
  "vc5_resource_setup env tmpl =
     (if \<not> calloc_ok env then Inl OutOfMemory
      else
        let rsc = \<lparr>base = tmpl, bo = None, slices = (\<lambda>_. calloc_slice),
                   cube_map_stride = 0, rsc_size = 0, cpp = 0, tiled = False\<rparr>;
            prsc = base rsc
        in
          if nr_samples prsc \<le> 1 \<or> format_is_depth_or_stencil (format prsc) then
            (let rsc = rsc\<lparr>cpp := format_blocksize (format prsc) * max (nr_samples prsc) 1\<rparr>
             in if cpp rsc = 0 then Inl AssertionFailed else Inr rsc)
          else if \<not> format_rt_supported (format prsc) then Inl AssertionFailed
          else
            (let rsc =
                   (case format_internal_bpp (format prsc) of
                      V3D_INTERNAL_BPP_32 \<Rightarrow> rsc\<lparr>cpp := 4\<rparr>
                    | V3D_INTERNAL_BPP_64 \<Rightarrow> rsc\<lparr>cpp := 8\<rparr>
                    | V3D_INTERNAL_BPP_128 \<Rightarrow> rsc\<lparr>cpp := 16\<rparr>)
             in if cpp rsc = 0 then Inl AssertionFailed else Inr rsc))"

definition vc5_resource_from_handle ::
  "vc5_hw \<Rightarrow> import_env \<Rightarrow> pipe_resource \<Rightarrow> winsys_handle \<Rightarrow> import_error + vc5_resource" where
  "vc5_resource_from_handle hw env tmpl whandle =
     (case vc5_resource_setup env tmpl of
        Inl e \<Rightarrow> Inl e
      | Inr rsc \<Rightarrow>
          if wh_modifier whandle \<noteq> DRM_FORMAT_MOD_LINEAR env then Inl UnsupportedModifier
          else
            let rsc = rsc\<lparr>tiled := False\<rparr>
            in
              if wh_offset whandle \<noteq> 0 then Inl UnsupportedOffset
              else
                (case
                   (case wh_type whandle of
                      DRM_API_HANDLE_TYPE_SHARED \<Rightarrow>
                        Inr (vc5_bo_open_name env (wh_handle whandle) (wh_stride whandle))
                    | DRM_API_HANDLE_TYPE_FD \<Rightarrow>
                        Inr (vc5_bo_open_dmabuf env (wh_handle whandle) (wh_stride whandle))
                    | DRM_API_HANDLE_TYPE_KMS \<Rightarrow> Inl UnsupportedHandleType)
                 of
                   Inl e \<Rightarrow> Inl e
                 | Inr None \<Rightarrow> Inl BoOpenFailed
                 | Inr (Some b) \<Rightarrow>
                     (let rsc = vc5_setup_slices hw (rsc\<lparr>bo := Some b\<rparr>)
                      in if wh_stride whandle \<noteq> stride (slices rsc 0)
                         then Inl IncompatibleLayout
                         else Inr rsc)))"

section \<open>The selector of the tile class as the specification words it\<close>

text \<open>
  The decision list of the specification, first match wins: raster when the resource
  does not want tiling; the linear-tile class when the level is not the multisampled top
  level and the padded width or height is at most a micro-tile; one block column when the
  padded width is at most a block; two block columns when it is at most two blocks;
  otherwise block-interleaved, with XOR exactly when the height padded to a block row
  plus the bank padding is a multiple of the page-cache row count. The exception for the
  multisampled top level is part of the linear-tile rung only.
\<close>

definition spec_select_tile_class ::
  "vc5_hw \<Rightarrow> vc5_resource \<Rightarrow> u32 \<Rightarrow> u32 \<Rightarrow> bool \<Rightarrow> bool \<Rightarrow> vc5_tiling_mode" where
  "spec_select_tile_class hw rsc padded_w padded_h is_multisample_top_level
       resource_wants_tiling =
     (let utile_w = vc5_utile_width hw (cpp rsc);
          utile_h = vc5_utile_height hw (cpp rsc);
          uif_block_w = 2 * utile_w;
          uif_block_h = 2 * utile_h
      in
        if \<not> resource_wants_tiling then VC5_TILING_RASTER
        else if \<not> is_multisample_top_level \<and>
                (padded_w \<le> utile_w \<or> padded_h \<le> utile_h)
        then VC5_TILING_LINEARTILE
        else if padded_w \<le> uif_block_w then VC5_TILING_UBLINEAR_1_COLUMN
        else if padded_w \<le> 2 * uif_block_w then VC5_TILING_UBLINEAR_2_COLUMN
        else
          (let h = align padded_h uif_block_h;
               h' = h + vc5_get_ub_pad hw rsc h * uif_block_h
           in if (h' div uif_block_h) mod PAGE_CACHE_UB_ROWS hw = 0
              then VC5_TILING_UIF_XOR else VC5_TILING_UIF_NO_XOR))"

section \<open>A hardware configuration and sample resources\<close>

text \<open>
  The values of the V3D 3.x hardware: pages of 4096 bytes, a page cache of 8 pages, rows
  of 4 UIF blocks of 256 bytes, and micro-tiles of 64 bytes whose shape depends on the
  bytes per texel.
\<close>

definition v3d_hw :: vc5_hw where
  "v3d_hw =
     \<lparr>VC5_UIFCFG_PAGE_SIZE = 4096,
      VC5_PAGE_CACHE_SIZE = 32768,
      VC5_UIFBLOCK_ROW_SIZE = 1024,
      vc5_utile_width =
        (\<lambda>c. if c = 1 \<or> c = 2 then 8 else if c = 4 \<or> c = 8 then 4
              else if c = 16 then 2 else 0),
      vc5_utile_height =
        (\<lambda>c. if c = 1 then 8 else if c = 2 \<or> c = 4 then 4
              else if c = 8 \<or> c = 16 then 2 else 0)\<rparr>"

definition rgba8 :: pipe_format where
  "rgba8 =
     \<lparr>format_blockwidth = 1, format_blockheight = 1, format_blocksize = 4,
      format_is_depth_or_stencil = False, format_rt_supported = True,
      format_internal_bpp = V3D_INTERNAL_BPP_32\<rparr>"

text \<open>
  A template of the given target, size, last level and sample count in a four-byte
  format, and the resource that \<open>vc5_resource_setup\<close> makes of it, tiled or not.
\<close>

definition sample_tmpl ::
  "pipe_texture_target \<Rightarrow> u32 \<Rightarrow> u32 \<Rightarrow> u32 \<Rightarrow> nat \<Rightarrow> u32 \<Rightarrow> pipe_resource" where
  "sample_tmpl t w h d l n =
     \<lparr>target = t, format = rgba8, width0 = w, height0 = h, depth0 = d,
      array_size = 1, last_level = l, nr_samples = n\<rparr>"

definition sample_rsc :: "pipe_resource \<Rightarrow> bool \<Rightarrow> vc5_resource" where
  "sample_rsc tmpl til =
     \<lparr>base = tmpl, bo = None, slices = (\<lambda>_. calloc_slice),
      cube_map_stride = 0, rsc_size = 0, cpp = 4, tiled = til\<rparr>"

definition sample_env :: import_env where
  "sample_env =
     \<lparr>calloc_ok = True, DRM_FORMAT_MOD_LINEAR = 0,
      vc5_bo_open_name = (\<lambda>h s. Some (unat h)),
      vc5_bo_open_dmabuf = (\<lambda>h s. Some (unat h))\<rparr>"

text \<open>
  Sample resources: a mip chain of five levels, a multisampled surface whose doubled
  width stays within one UIF block, a surface whose height needs bank padding, a small
  volume, a volume whose sizes are not powers of two, and an array of three layers.
\<close>

definition rsc_mips :: vc5_resource where
  "rsc_mips = sample_rsc (sample_tmpl PIPE_TEXTURE_2D 128 512 1 4 1) True"

definition rsc_msaa :: vc5_resource where
  "rsc_msaa = sample_rsc (sample_tmpl PIPE_TEXTURE_2D 2 16 1 0 4) True"

definition rsc_pad :: vc5_resource where
  "rsc_pad = sample_rsc (sample_tmpl PIPE_TEXTURE_2D 64 280 1 0 1) True"

definition rsc_3d :: vc5_resource where
  "rsc_3d = sample_rsc (sample_tmpl PIPE_TEXTURE_3D 4 4 4 1 1) True"

definition rsc_dims :: vc5_resource where
  "rsc_dims = sample_rsc (sample_tmpl PIPE_TEXTURE_3D 10 10 10 3 1) True"

definition rsc_array :: vc5_resource where
  "rsc_array =
     sample_rsc ((sample_tmpl PIPE_TEXTURE_2D_ARRAY 20 20 1 0 1)\<lparr>array_size := 3\<rparr>) True"

text \<open>
  A tiled volume of 1920 by 2048 by 2048 texels with three levels: what its levels 1 and
  2 add to the running offset is more than 32 bits hold.
\<close>

definition rsc_wrap :: vc5_resource where
  "rsc_wrap = sample_rsc (sample_tmpl PIPE_TEXTURE_3D 1920 2048 2048 2 1) True"

text \<open>
  A template of a linear surface of 16 by 16 texels for the import, and a handle of a
  file descriptor with a given stride and modifier and no offset.
\<close>

definition tmpl_linear :: pipe_resource where
  "tmpl_linear = sample_tmpl PIPE_TEXTURE_2D 16 16 1 0 1"

definition whandle_of :: "u32 \<Rightarrow> 64 word \<Rightarrow> winsys_handle" where
  "whandle_of s m =
     \<lparr>wh_type = DRM_API_HANDLE_TYPE_FD, wh_handle = 7, wh_stride = s, wh_offset = 0,
      wh_modifier = m\<rparr>"

text \<open>A linear volume whose sizes are not powers of two.\<close>

definition rsc_raster_3d :: vc5_resource where
  "rsc_raster_3d = sample_rsc (sample_tmpl PIPE_TEXTURE_3D 10 10 10 3 1) False"

section \<open>Quantities of the loop\<close>

text \<open>
  The slice that the loop stores at level \<open>i\<close> when the running offset is \<open>offs\<close> and
  the slice held the bank padding \<open>old_pad\<close> before, and the amount by which the loop
  advances the running offset at level \<open>i\<close>; \<open>setup_slice_eq\<close> below proves that
  these are what \<open>setup_slice\<close> stores and adds.
\<close>

definition mk_slice :: "vc5_hw \<Rightarrow> vc5_resource \<Rightarrow> nat \<Rightarrow> u32 \<Rightarrow> u32 \<Rightarrow> vc5_resource_slice" where
  "mk_slice hw rsc i old_pad offs =
     \<lparr>offset = offs,
      stride = lc_width (level_layout hw rsc i) * cpp rsc,
      padded_height = lc_height (level_layout hw rsc i),
      ub_pad = (case lc_ub_pad (level_layout hw rsc i) of None \<Rightarrow> old_pad | Some p \<Rightarrow> p),
      slice_size = lc_height (level_layout hw rsc i) * (lc_width (level_layout hw rsc i) * cpp rsc),
      tiling = lc_tiling (level_layout hw rsc i)\<rparr>"

definition slice_total_size :: "vc5_hw \<Rightarrow> vc5_resource \<Rightarrow> nat \<Rightarrow> u32" where
  "slice_total_size hw rsc i =
     (let lc = level_layout hw rsc i;
          total = lc_height lc * (lc_width lc * cpp rsc) * level_depth rsc i
      in if i = 1 \<and> lc_width lc > 4 * (vc5_utile_width hw (cpp rsc) * 2) \<and>
            lc_height lc > PAGE_CACHE_MINUS_1_5_UB_ROWS hw * (vc5_utile_height hw (cpp rsc) * 2)
         then align total (VC5_UIFCFG_PAGE_SIZE hw) else total)"

text \<open>
  The running offset when the loop reaches level \<open>j\<close>, and the padding that the
  alignment of level 0 to 4096 bytes puts in front of all levels.
\<close>

definition level_offset :: "vc5_hw \<Rightarrow> vc5_resource \<Rightarrow> nat \<Rightarrow> u32" where
  "level_offset hw rsc j = (\<Sum>k\<in>{j<..last_level (base rsc)}. slice_total_size hw rsc k)"

definition front_pad :: "vc5_hw \<Rightarrow> vc5_resource \<Rightarrow> u32" where
  "front_pad hw rsc = align (level_offset hw rsc 0) 4096 - level_offset hw rsc 0"

section \<open>The bank padding\<close>

lemma ub_pad_range_aux:
  fixes pc t15 hub :: u32
  assumes "0 < pc" "t15 \<le> pc"
  shows "(if hub mod pc = 0 then 0
          else if hub mod pc < t15 then (if hub < pc then 0 else t15 - hub mod pc)
          else if hub mod pc > pc - t15 then pc - hub mod pc else 0) < pc"
proof -
  have lt: "hub mod pc < pc" using assms(1) by (simp add: word_mod_less_divisor)
  have nz: "hub mod pc \<noteq> 0 \<Longrightarrow> 0 < unat (hub mod pc)" by (simp add: unat_gt_0)
  show ?thesis using assms lt nz by (auto simp: word_less_nat_alt word_le_nat_alt unat_sub)
qed

text \<open>
  C1: \<open>vc5_get_ub_pad\<close> returns the piecewise value of the specification. With the
  block height twice the micro-tile height, the height in blocks and its remainder by the
  page-cache row count, the padding is 0 when the remainder is 0; when the remainder is
  below one and a half pages it is 0 if the height in blocks is below the page-cache row
  count and the distance up to one and a half pages otherwise; when the remainder is
  above the page-cache row count less one and a half pages it is the distance up to the
  page-cache row count; otherwise it is 0. When the page-cache row count is positive and
  not below one and a half pages, as for the hardware, the padding is below the
  page-cache row count.
\<close>

theorem vc5_get_ub_pad_piecewise:
  "vc5_get_ub_pad hw rsc height =
     (let block_h = 2 * vc5_utile_height hw (cpp rsc);
          height_in_blocks = height div block_h;
          cache_row_count = PAGE_CACHE_UB_ROWS hw;
          one_and_half_page_rows = PAGE_UB_ROWS_TIMES_1_5 hw;
          offset_in_cache = height_in_blocks mod cache_row_count
      in if offset_in_cache = 0 then 0
         else if offset_in_cache < one_and_half_page_rows then
           (if height_in_blocks < cache_row_count then 0
            else one_and_half_page_rows - offset_in_cache)
         else if offset_in_cache > cache_row_count - one_and_half_page_rows then
           cache_row_count - offset_in_cache
         else 0) \<and>
   (0 < PAGE_CACHE_UB_ROWS hw \<and> PAGE_UB_ROWS_TIMES_1_5 hw \<le> PAGE_CACHE_UB_ROWS hw \<longrightarrow>
      vc5_get_ub_pad hw rsc height < PAGE_CACHE_UB_ROWS hw)"
proof (intro conjI impI)
  show "vc5_get_ub_pad hw rsc height =
     (let block_h = 2 * vc5_utile_height hw (cpp rsc);
          height_in_blocks = height div block_h;
          cache_row_count = PAGE_CACHE_UB_ROWS hw;
          one_and_half_page_rows = PAGE_UB_ROWS_TIMES_1_5 hw;
          offset_in_cache = height_in_blocks mod cache_row_count
      in if offset_in_cache = 0 then 0
         else if offset_in_cache < one_and_half_page_rows then
           (if height_in_blocks < cache_row_count then 0
            else one_and_half_page_rows - offset_in_cache)
         else if offset_in_cache > cache_row_count - one_and_half_page_rows then
           cache_row_count - offset_in_cache
         else 0)"
    by (simp add: vc5_get_ub_pad_def PAGE_CACHE_MINUS_1_5_UB_ROWS_def Let_def mult.commute)
next
  assume h: "0 < PAGE_CACHE_UB_ROWS hw \<and> PAGE_UB_ROWS_TIMES_1_5 hw \<le> PAGE_CACHE_UB_ROWS hw"
  show "vc5_get_ub_pad hw rsc height < PAGE_CACHE_UB_ROWS hw"
    unfolding vc5_get_ub_pad_def Let_def PAGE_CACHE_MINUS_1_5_UB_ROWS_def
    using ub_pad_range_aux[of "PAGE_CACHE_UB_ROWS hw" "PAGE_UB_ROWS_TIMES_1_5 hw"] h by blast
qed

theorem vc5_get_ub_pad_piecewise_witness:
  "0 < PAGE_CACHE_UB_ROWS v3d_hw \<and> PAGE_UB_ROWS_TIMES_1_5 v3d_hw \<le> PAGE_CACHE_UB_ROWS v3d_hw \<and>
   PAGE_CACHE_UB_ROWS v3d_hw = 32 \<and> PAGE_UB_ROWS_TIMES_1_5 v3d_hw = 6 \<and>
   vc5_get_ub_pad v3d_hw rsc_pad 280 = 3 \<and> vc5_get_ub_pad v3d_hw rsc_pad 280 < 32"
  using vc5_get_ub_pad_piecewise [of v3d_hw rsc_pad 280]
  by (simp add: v3d_hw_def rsc_pad_def sample_rsc_def PAGE_CACHE_UB_ROWS_def
        PAGE_UB_ROWS_TIMES_1_5_def PAGE_UB_ROWS_def Let_def)

section \<open>The loop over the levels in closed form\<close>

lemma vc5_get_ub_pad_cong: "cpp r' = cpp r \<Longrightarrow> vc5_get_ub_pad hw r' h = vc5_get_ub_pad hw r h"
  unfolding vc5_get_ub_pad_def by (simp only:)

lemma level_dims_cong: "base r' = base r \<Longrightarrow> level_dims r' i = level_dims r i"
  unfolding level_dims_def by (simp only:)

lemma level_blocks_cong: "base r' = base r \<Longrightarrow> level_blocks r' i = level_blocks r i"
  unfolding level_blocks_def by (simp only: level_dims_cong [of r' r])

lemma level_tiling_cong:
  "base r' = base r \<Longrightarrow> cpp r' = cpp r \<Longrightarrow> tiled r' = tiled r \<Longrightarrow>
   level_tiling hw r' i w h = level_tiling hw r i w h"
  unfolding level_tiling_def by (simp only: vc5_get_ub_pad_cong [of r' r])

lemma level_layout_cong:
  "base r' = base r \<Longrightarrow> cpp r' = cpp r \<Longrightarrow> tiled r' = tiled r \<Longrightarrow>
   level_layout hw r' i = level_layout hw r i"
  unfolding level_layout_def
  by (simp only: level_blocks_cong [of r' r] level_tiling_cong [of r' r])

lemma level_depth_cong: "base r' = base r \<Longrightarrow> level_depth r' i = level_depth r i"
  unfolding level_depth_def by (simp only: level_dims_cong [of r' r])

lemma mk_slice_cong:
  "base r' = base r \<Longrightarrow> cpp r' = cpp r \<Longrightarrow> tiled r' = tiled r \<Longrightarrow>
   mk_slice hw r' i p offs = mk_slice hw r i p offs"
  by (simp add: mk_slice_def level_layout_cong [of r' r])

lemma slice_total_size_cong:
  "base r' = base r \<Longrightarrow> cpp r' = cpp r \<Longrightarrow> tiled r' = tiled r \<Longrightarrow>
   slice_total_size hw r' i = slice_total_size hw r i"
  by (simp add: slice_total_size_def level_layout_cong [of r' r] level_depth_cong [of r' r])

lemma setup_slice_eq:
  "setup_slice hw rsc i offs =
     (rsc\<lparr>slices := (slices rsc)(i := mk_slice hw rsc i (ub_pad (slices rsc i)) offs)\<rparr>,
      offs + slice_total_size hw rsc i)"
  unfolding setup_slice_def mk_slice_def slice_total_size_def Let_def
  by (simp only: vc5_resource_slice.select_convs)

lemma sum_gt_Suc:
  fixes f :: "nat \<Rightarrow> u32"
  assumes "j \<le> n"
  shows "(\<Sum>k\<in>{j<..Suc n}. f k) = (\<Sum>k\<in>{j<..n}. f k) + f (Suc n)"
proof -
  have "{j<..Suc n} = insert (Suc n) {j<..n}" using assms by auto
  then show ?thesis by (simp add: add.commute)
qed

lemma setup_levels_char:
  "setup_levels hw n (rsc, offs) =
     (rsc\<lparr>slices := (\<lambda>j. if j \<le> n
                          then mk_slice hw rsc j (ub_pad (slices rsc j))
                                 (offs + (\<Sum>k\<in>{j<..n}. slice_total_size hw rsc k))
                          else slices rsc j)\<rparr>,
      offs + (\<Sum>k\<le>n. slice_total_size hw rsc k))"
proof (induction n arbitrary: rsc offs)
  case 0
  show ?case by (auto simp: setup_slice_eq fun_eq_iff)
next
  case (Suc n)
  let ?r1 = "rsc\<lparr>slices := (slices rsc)(Suc n := mk_slice hw rsc (Suc n) (ub_pad (slices rsc (Suc n))) offs)\<rparr>"
  have c1: "\<And>i p q. mk_slice hw ?r1 i p q = mk_slice hw rsc i p q"
    by (rule mk_slice_cong) simp_all
  have c2: "\<And>i. slice_total_size hw ?r1 i = slice_total_size hw rsc i"
    by (rule slice_total_size_cong) simp_all
  note c = c1 c2
  have "setup_levels hw (Suc n) (rsc, offs) =
        setup_levels hw n (?r1, offs + slice_total_size hw rsc (Suc n))"
    by (simp add: setup_slice_eq)
  also have "\<dots> = (?r1\<lparr>slices := (\<lambda>j. if j \<le> n
                          then mk_slice hw rsc j (ub_pad (slices ?r1 j))
                                 (offs + slice_total_size hw rsc (Suc n) + (\<Sum>k\<in>{j<..n}. slice_total_size hw rsc k))
                          else slices ?r1 j)\<rparr>,
      offs + slice_total_size hw rsc (Suc n) + (\<Sum>k\<le>n. slice_total_size hw rsc k))"
    by (simp only: Suc.IH c)
  also have "\<dots> = (rsc\<lparr>slices := (\<lambda>j. if j \<le> Suc n
                          then mk_slice hw rsc j (ub_pad (slices rsc j))
                                 (offs + (\<Sum>k\<in>{j<..Suc n}. slice_total_size hw rsc k))
                          else slices rsc j)\<rparr>,
      offs + (\<Sum>k\<le>Suc n. slice_total_size hw rsc k))"
  proof -
    have F: "(\<lambda>j. if j \<le> n
                then mk_slice hw rsc j (ub_pad (slices ?r1 j))
                       (offs + slice_total_size hw rsc (Suc n) + (\<Sum>k\<in>{j<..n}. slice_total_size hw rsc k))
                else slices ?r1 j) =
             (\<lambda>j. if j \<le> Suc n
                then mk_slice hw rsc j (ub_pad (slices rsc j))
                       (offs + (\<Sum>k\<in>{j<..Suc n}. slice_total_size hw rsc k))
                else slices rsc j)"
    proof (rule ext)
      fix j
      consider "j \<le> n" | "j = Suc n" | "Suc n < j" by linarith
      then show "(if j \<le> n
                then mk_slice hw rsc j (ub_pad (slices ?r1 j))
                       (offs + slice_total_size hw rsc (Suc n) + (\<Sum>k\<in>{j<..n}. slice_total_size hw rsc k))
                else slices ?r1 j) =
             (if j \<le> Suc n
                then mk_slice hw rsc j (ub_pad (slices rsc j))
                       (offs + (\<Sum>k\<in>{j<..Suc n}. slice_total_size hw rsc k))
                else slices rsc j)"
      proof cases
        case 1
        then show ?thesis by (simp add: sum_gt_Suc ac_simps)
      next
        case 2
        then show ?thesis by simp
      next
        case 3
        then show ?thesis by simp
      qed
    qed
    have G: "offs + slice_total_size hw rsc (Suc n) + (\<Sum>k\<le>n. slice_total_size hw rsc k) =
             offs + (\<Sum>k\<le>Suc n. slice_total_size hw rsc k)"
      by (simp add: ac_simps)
    show ?thesis by (simp only: F G) simp
  qed
  finally show ?case .
qed

lemma accumulate_levels_eq:
  "accumulate_levels hw rsc =
     rsc\<lparr>slices := (\<lambda>j. if j \<le> last_level (base rsc)
                          then mk_slice hw rsc j (ub_pad (slices rsc j)) (level_offset hw rsc j)
                          else slices rsc j),
         rsc_size := (\<Sum>k\<le>last_level (base rsc). slice_total_size hw rsc k)\<rparr>"
  by (simp add: accumulate_levels_def setup_levels_char level_offset_def cong: if_cong)

lemma accumulate_levels_static:
  "base (accumulate_levels hw rsc) = base rsc"
  "cpp (accumulate_levels hw rsc) = cpp rsc"
  "tiled (accumulate_levels hw rsc) = tiled rsc"
  "bo (accumulate_levels hw rsc) = bo rsc"
  by (simp_all add: accumulate_levels_eq)

lemma accumulate_levels_slice:
  "j \<le> last_level (base rsc) \<Longrightarrow>
   slices (accumulate_levels hw rsc) j =
     mk_slice hw rsc j (ub_pad (slices rsc j)) (level_offset hw rsc j)"
  by (simp add: accumulate_levels_eq)

lemma add_page_align_offset_apply:
  "add_page_align_offset p n sl j =
     (if j \<le> n then (sl j)\<lparr>offset := offset (sl j) + p\<rparr> else sl j)"
  by (induction n) (auto simp: Let_def le_Suc_eq)

lemma page_align_slices_static:
  "base (page_align_slices r) = base r"
  "cpp (page_align_slices r) = cpp r"
  "tiled (page_align_slices r) = tiled r"
  "bo (page_align_slices r) = bo r"
  by (simp_all add: page_align_slices_def Let_def)


lemma page_align_slices_slice:
  "slices (page_align_slices r) j =
     (if j \<le> last_level (base r)
      then (slices r j)\<lparr>offset := offset (slices r j) +
                                   (align (offset (slices r 0)) 4096 - offset (slices r 0))\<rparr>
      else slices r j)"
  by (simp add: page_align_slices_def Let_def add_page_align_offset_apply)

lemma setup_cube_map_stride_static:
  "base (setup_cube_map_stride r) = base r"
  "cpp (setup_cube_map_stride r) = cpp r"
  "tiled (setup_cube_map_stride r) = tiled r"
  "bo (setup_cube_map_stride r) = bo r"
  "slices (setup_cube_map_stride r) = slices r"
  by (simp_all add: setup_cube_map_stride_def Let_def)

lemma vc5_setup_slices_static:
  "base (vc5_setup_slices hw rsc) = base rsc"
  "cpp (vc5_setup_slices hw rsc) = cpp rsc"
  "tiled (vc5_setup_slices hw rsc) = tiled rsc"
  "bo (vc5_setup_slices hw rsc) = bo rsc"
  by (simp_all add: vc5_setup_slices_def setup_cube_map_stride_static
        page_align_slices_static accumulate_levels_static)

lemma mk_slice_offset_update:
  "(mk_slice hw rsc j p offs)\<lparr>offset := q\<rparr> = mk_slice hw rsc j p q"
  by (simp add: mk_slice_def)

lemma vc5_setup_slices_slice:
  "j \<le> last_level (base rsc) \<Longrightarrow>
   slices (vc5_setup_slices hw rsc) j =
     mk_slice hw rsc j (ub_pad (slices rsc j)) (level_offset hw rsc j + front_pad hw rsc)"
  by (simp add: vc5_setup_slices_def setup_cube_map_stride_static page_align_slices_slice
        accumulate_levels_static accumulate_levels_slice mk_slice_offset_update front_pad_def
        mk_slice_def)

lemma level_offset_step:
  assumes "0 < i" "i \<le> last_level (base rsc)"
  shows "level_offset hw rsc (i - 1) = level_offset hw rsc i + slice_total_size hw rsc i"
proof -
  have "{i - 1<..last_level (base rsc)} = insert i {i<..last_level (base rsc)}"
    using assms by auto
  then show ?thesis by (simp add: level_offset_def add.commute)
qed

lemma level_offset_last: "level_offset hw rsc (last_level (base rsc)) = 0"
  by (simp add: level_offset_def)

lemma mk_slice_sel:
  "offset (mk_slice hw rsc i p offs) = offs"
  "stride (mk_slice hw rsc i p offs) = lc_width (level_layout hw rsc i) * cpp rsc"
  "padded_height (mk_slice hw rsc i p offs) = lc_height (level_layout hw rsc i)"
  "ub_pad (mk_slice hw rsc i p offs) =
     (case lc_ub_pad (level_layout hw rsc i) of None \<Rightarrow> p | Some q \<Rightarrow> q)"
  "slice_size (mk_slice hw rsc i p offs) =
     lc_height (level_layout hw rsc i) * (lc_width (level_layout hw rsc i) * cpp rsc)"
  "tiling (mk_slice hw rsc i p offs) = lc_tiling (level_layout hw rsc i)"
  by (simp_all add: mk_slice_def)

section \<open>The tiling of a level\<close>

lemma level_layout_tiled:
  assumes "tiled rsc"
  shows "level_layout hw rsc i =
     (let w = fst (level_blocks rsc i);
          h = snd (level_blocks rsc i);
          utile_w = vc5_utile_width hw (cpp rsc);
          utile_h = vc5_utile_height hw (cpp rsc);
          uif_block_w = utile_w * 2;
          uif_block_h = utile_h * 2;
          not_top = (i \<noteq> 0 \<or> \<not> 1 < nr_samples (base rsc))
      in if not_top \<and> (w \<le> utile_w \<or> h \<le> utile_h) then
           \<lparr>lc_tiling = VC5_TILING_LINEARTILE, lc_ub_pad = None,
            lc_width = align w utile_w, lc_height = align h utile_h\<rparr>
         else if not_top \<and> w \<le> uif_block_w then
           \<lparr>lc_tiling = VC5_TILING_UBLINEAR_1_COLUMN, lc_ub_pad = None,
            lc_width = align w uif_block_w, lc_height = align h uif_block_h\<rparr>
         else if not_top \<and> w \<le> 2 * uif_block_w then
           \<lparr>lc_tiling = VC5_TILING_UBLINEAR_2_COLUMN, lc_ub_pad = None,
            lc_width = align w (2 * uif_block_w), lc_height = align h uif_block_h\<rparr>
         else
           \<lparr>lc_tiling =
              (if ((align h uif_block_h +
                    vc5_get_ub_pad hw rsc (align h uif_block_h) * uif_block_h) div uif_block_h) mod
                  (VC5_PAGE_CACHE_SIZE hw div VC5_UIFBLOCK_ROW_SIZE hw) = 0
               then VC5_TILING_UIF_XOR else VC5_TILING_UIF_NO_XOR),
            lc_ub_pad = Some (vc5_get_ub_pad hw rsc (align h uif_block_h)),
            lc_width = align w (4 * uif_block_w),
            lc_height = align h uif_block_h +
                        vc5_get_ub_pad hw rsc (align h uif_block_h) * uif_block_h\<rparr>)"
  unfolding level_layout_def level_tiling_def Let_def using assms by (simp only: not_True_eq_False if_False simp_thms)

text \<open>
  C2, as the code has it: for a tiled resource and a level, with the width and height
  of the level in blocks (doubled for MSAA), the stored tiling follows the decision list
  in order. The exception for the top level of a multisampled resource guards all three
  rungs, not the linear-tile rung alone: unless the level is that top level, a width or
  height of at most a micro-tile selects the linear-tile class and pads width and height
  to the micro-tile, else a width of at most one UIF block selects one column, else a
  width of at most two UIF blocks selects two columns; in every other case, and always
  for the multisampled top level, the tiling is one of the two UIF classes.
\<close>

theorem tile_class_decision_list:
  assumes "tiled rsc" and "i \<le> last_level (base rsc)"
  shows "let s = slices (vc5_setup_slices hw rsc) i;
             w = fst (level_blocks rsc i);
             h = snd (level_blocks rsc i);
             utile_w = vc5_utile_width hw (cpp rsc);
             utile_h = vc5_utile_height hw (cpp rsc);
             uif_block_w = 2 * utile_w;
             ms_top = (i = 0 \<and> 1 < nr_samples (base rsc))
         in if \<not> ms_top \<and> (w \<le> utile_w \<or> h \<le> utile_h) then
              tiling s = VC5_TILING_LINEARTILE \<and>
              stride s = align w utile_w * cpp rsc \<and>
              padded_height s = align h utile_h
            else if \<not> ms_top \<and> w \<le> uif_block_w then
              tiling s = VC5_TILING_UBLINEAR_1_COLUMN
            else if \<not> ms_top \<and> w \<le> 2 * uif_block_w then
              tiling s = VC5_TILING_UBLINEAR_2_COLUMN
            else tiling s = VC5_TILING_UIF_XOR \<or> tiling s = VC5_TILING_UIF_NO_XOR"
  by (simp add: vc5_setup_slices_slice [OF assms(2)] mk_slice_sel
        level_layout_tiled [OF assms(1)] Let_def mult.commute)

theorem tile_class_decision_list_witness:
  "tiled rsc_mips \<and> 4 \<le> last_level (base rsc_mips) \<and>
   fst (level_blocks rsc_mips 4) = 8 \<and>
   tiling (slices (vc5_setup_slices v3d_hw rsc_mips) 4) = VC5_TILING_UBLINEAR_1_COLUMN"
proof -
  have h1: "tiled rsc_mips" by (simp add: rsc_mips_def sample_rsc_def)
  have h2: "4 \<le> last_level (base rsc_mips)"
    by (simp add: rsc_mips_def sample_rsc_def sample_tmpl_def)
  have e: "fst (level_blocks rsc_mips 4) = 8" "snd (level_blocks rsc_mips 4) = 32"
          "vc5_utile_width v3d_hw (cpp rsc_mips) = 4"
          "vc5_utile_height v3d_hw (cpp rsc_mips) = 4"
          "nr_samples (base rsc_mips) = 1"
    by code_simp+
  show ?thesis
    using tile_class_decision_list [OF h1 h2, of v3d_hw] h1 h2 e by (simp add: Let_def)
qed

text \<open>
  The reading of the specification, with the exception on the linear-tile rung only,
  fails on the top level of a four-sample surface of 2 by 16 texels: its doubled width 4
  is within one UIF block (8), the specification's selector answers one block column, and
  the code lays the level out as UIF.
\<close>

theorem tile_class_ms_top_counterexample:
  "tiled rsc_msaa \<and> 1 < nr_samples (base rsc_msaa) \<and>
   fst (level_blocks rsc_msaa 0) = 4 \<and> snd (level_blocks rsc_msaa 0) = 32 \<and>
   2 * vc5_utile_width v3d_hw (cpp rsc_msaa) = 8 \<and>
   spec_select_tile_class v3d_hw rsc_msaa 4 32 True True = VC5_TILING_UBLINEAR_1_COLUMN \<and>
   tiling (slices (vc5_setup_slices v3d_hw rsc_msaa) 0) = VC5_TILING_UIF_NO_XOR"
  by code_simp

text \<open>
  C3: for a tiled level that no earlier rung of the decision list takes, the width is
  padded to four UIF block columns and the height to a UIF block row, the bank padding
  of that height times the block height is added to the height, and the tiling is UIF
  with XOR exactly when the padded height in block rows is a multiple of the page-cache
  row count, and UIF without XOR otherwise.
\<close>

theorem uif_level_geometry:
  assumes "tiled rsc" and "i \<le> last_level (base rsc)"
  shows "let s = slices (vc5_setup_slices hw rsc) i;
             w = fst (level_blocks rsc i);
             h = snd (level_blocks rsc i);
             utile_w = vc5_utile_width hw (cpp rsc);
             utile_h = vc5_utile_height hw (cpp rsc);
             uif_block_w = utile_w * 2;
             uif_block_h = utile_h * 2;
             not_top = (i \<noteq> 0 \<or> \<not> 1 < nr_samples (base rsc));
             linear_tile = (not_top \<and> (w \<le> utile_w \<or> h \<le> utile_h));
             one_column = (not_top \<and> w \<le> uif_block_w);
             two_columns = (not_top \<and> w \<le> 2 * uif_block_w)
         in \<not> linear_tile \<and> \<not> one_column \<and> \<not> two_columns \<longrightarrow>
              lc_width (level_layout hw rsc i) = align w (4 * uif_block_w) \<and>
              stride s = align w (4 * uif_block_w) * cpp rsc \<and>
              ub_pad s = vc5_get_ub_pad hw rsc (align h uif_block_h) \<and>
              padded_height s = align h uif_block_h + ub_pad s * uif_block_h \<and>
              tiling s =
                (if (padded_height s div uif_block_h) mod
                    (VC5_PAGE_CACHE_SIZE hw div VC5_UIFBLOCK_ROW_SIZE hw) = 0
                 then VC5_TILING_UIF_XOR else VC5_TILING_UIF_NO_XOR)"
  by (auto simp add: vc5_setup_slices_slice [OF assms(2)] mk_slice_sel
        level_layout_tiled [OF assms(1)] Let_def)

theorem uif_level_geometry_witness:
  "tiled rsc_pad \<and> 0 \<le> last_level (base rsc_pad) \<and>
   fst (level_blocks rsc_pad 0) = 64 \<and> snd (level_blocks rsc_pad 0) = 280 \<and>
   stride (slices (vc5_setup_slices v3d_hw rsc_pad) 0) = 256 \<and>
   ub_pad (slices (vc5_setup_slices v3d_hw rsc_pad) 0) = 3 \<and>
   padded_height (slices (vc5_setup_slices v3d_hw rsc_pad) 0) = 304 \<and>
   tiling (slices (vc5_setup_slices v3d_hw rsc_pad) 0) = VC5_TILING_UIF_NO_XOR"
proof -
  have h1: "tiled rsc_pad" by (simp add: rsc_pad_def sample_rsc_def)
  have h2: "0 \<le> last_level (base rsc_pad)" by simp
  have e: "fst (level_blocks rsc_pad 0) = 64" "snd (level_blocks rsc_pad 0) = 280"
          "vc5_utile_width v3d_hw (cpp rsc_pad) = 4"
          "vc5_utile_height v3d_hw (cpp rsc_pad) = 4"
          "nr_samples (base rsc_pad) = 1" "cpp rsc_pad = 4"
          "align 64 32 = 64" "align 280 8 = 280"
          "vc5_get_ub_pad v3d_hw rsc_pad 280 = 3"
          "VC5_PAGE_CACHE_SIZE v3d_hw = 32768" "VC5_UIFBLOCK_ROW_SIZE v3d_hw = 1024"
    by code_simp+
  let ?s = "slices (vc5_setup_slices v3d_hw rsc_pad) 0"
  note t = uif_level_geometry [OF h1 h2, of v3d_hw]
  from t e have a: "ub_pad ?s = 3" by (simp add: Let_def)
  from t e have b: "padded_height ?s = 280 + ub_pad ?s * 8" by (simp add: Let_def)
  from t e have c: "stride ?s = 256" by (simp add: Let_def)
  from t e have k: "tiling ?s = VC5_TILING_UIF_NO_XOR" by (simp add: Let_def)
  from a b have g: "padded_height ?s = 304" by simp
  show ?thesis using h1 e a c g k by simp
qed

section \<open>The stride between layers and slices\<close>

text \<open>
  C5: for a 3D target the stride between slices is the size of the level-0 slice; for
  every other target the stride between layers is the level-0 offset plus the level-0
  size aligned to 64, and the total size is the accumulated size plus that stride times
  the array size less one.
\<close>

theorem inter_layer_stride:
  "cube_map_stride (vc5_setup_slices hw rsc) =
     (if target (base rsc) = PIPE_TEXTURE_3D
      then slice_size (slices (vc5_setup_slices hw rsc) 0)
      else align (offset (slices (vc5_setup_slices hw rsc) 0) +
                  slice_size (slices (vc5_setup_slices hw rsc) 0)) 64) \<and>
   rsc_size (vc5_setup_slices hw rsc) =
     (if target (base rsc) = PIPE_TEXTURE_3D
      then rsc_size (page_align_slices (accumulate_levels hw rsc))
      else rsc_size (page_align_slices (accumulate_levels hw rsc)) +
           cube_map_stride (vc5_setup_slices hw rsc) * (array_size (base rsc) - 1))"
  by (simp add: vc5_setup_slices_def setup_cube_map_stride_def Let_def
        page_align_slices_static accumulate_levels_static)

theorem inter_layer_stride_witness:
  "target (base rsc_3d) = PIPE_TEXTURE_3D \<and>
   cube_map_stride (vc5_setup_slices v3d_hw rsc_3d) = 64 \<and>
   slice_size (slices (vc5_setup_slices v3d_hw rsc_3d) 0) = 64 \<and>
   target (base rsc_array) = PIPE_TEXTURE_2D_ARRAY \<and>
   offset (slices (vc5_setup_slices v3d_hw rsc_array) 0) = 0 \<and>
   slice_size (slices (vc5_setup_slices v3d_hw rsc_array) 0) = 3072 \<and>
   cube_map_stride (vc5_setup_slices v3d_hw rsc_array) = 3072 \<and>
   rsc_size (page_align_slices (accumulate_levels v3d_hw rsc_array)) = 3072 \<and>
   rsc_size (vc5_setup_slices v3d_hw rsc_array) = 9216"
proof -
  have e: "target (base rsc_3d) = PIPE_TEXTURE_3D"
          "slice_size (slices (vc5_setup_slices v3d_hw rsc_3d) 0) = 64"
          "target (base rsc_array) = PIPE_TEXTURE_2D_ARRAY"
          "array_size (base rsc_array) = 3"
          "offset (slices (vc5_setup_slices v3d_hw rsc_array) 0) = 0"
          "slice_size (slices (vc5_setup_slices v3d_hw rsc_array) 0) = 3072"
          "rsc_size (page_align_slices (accumulate_levels v3d_hw rsc_array)) = 3072"
          "align 3072 64 = 3072"
    by code_simp+
  show ?thesis
    using inter_layer_stride [of v3d_hw rsc_3d] inter_layer_stride [of v3d_hw rsc_array] e
    by simp
qed

section \<open>The order of the offsets\<close>

lemma vc5_setup_slices_offset_step:
  assumes "0 < i" "i \<le> last_level (base rsc)"
  shows "offset (slices (vc5_setup_slices hw rsc) (i - 1)) =
         offset (slices (vc5_setup_slices hw rsc) i) + slice_total_size hw rsc i"
proof -
  have "i - 1 \<le> last_level (base rsc)" using assms by simp
  then show ?thesis
    using assms level_offset_step [OF assms, of hw]
    by (simp add: vc5_setup_slices_slice mk_slice_sel ac_simps)
qed

lemma unat_sum_no_wrap:
  fixes f :: "nat \<Rightarrow> u32"
  assumes "finite S" and "(\<Sum>k\<in>S. unat (f k)) < 2 ^ 32"
  shows "unat (\<Sum>k\<in>S. f k) = (\<Sum>k\<in>S. unat (f k))"
  using assms
proof (induction S rule: finite_induct)
  case empty
  show ?case by simp
next
  case (insert x F)
  from insert.prems insert.hyps have b: "unat (f x) + (\<Sum>k\<in>F. unat (f k)) < 2 ^ 32"
    by simp
  then have "(\<Sum>k\<in>F. unat (f k)) < 2 ^ 32" by simp
  then have ih: "unat (\<Sum>k\<in>F. f k) = (\<Sum>k\<in>F. unat (f k))" by (rule insert.IH)
  have "unat (f x + (\<Sum>k\<in>F. f k)) = unat (f x) + unat (\<Sum>k\<in>F. f k)"
    using b ih by (simp add: unat_add_lem [THEN iffD1])
  then show ?case using insert.hyps ih by simp
qed

lemma level_offset_no_wrap:
  assumes "(\<Sum>k\<in>{0<..last_level (base rsc)}. unat (slice_total_size hw rsc k)) +
           unat (front_pad hw rsc) < 2 ^ 32"
    and "j \<le> last_level (base rsc)"
  shows "unat (level_offset hw rsc j + front_pad hw rsc) =
         (\<Sum>k\<in>{j<..last_level (base rsc)}. unat (slice_total_size hw rsc k)) +
         unat (front_pad hw rsc)"
proof -
  let ?n = "last_level (base rsc)"
  let ?T = "\<lambda>k. unat (slice_total_size hw rsc k)"
  have sub: "(\<Sum>k\<in>{j<..?n}. ?T k) \<le> (\<Sum>k\<in>{0<..?n}. ?T k)"
    by (rule sum_mono2) auto
  with assms(1) have lt: "(\<Sum>k\<in>{j<..?n}. ?T k) + unat (front_pad hw rsc) < 2 ^ 32" by simp
  then have "(\<Sum>k\<in>{j<..?n}. ?T k) < 2 ^ 32" by simp
  then have u: "unat (level_offset hw rsc j) = (\<Sum>k\<in>{j<..?n}. ?T k)"
    unfolding level_offset_def by (intro unat_sum_no_wrap) simp_all
  show ?thesis using lt u by (simp add: unat_add_lem [THEN iffD1])
qed

text \<open>
  C7, as the code has it: the loop runs from the last level down to level 0, so the
  last level starts at offset 0 before the front padding, and for every level \<open>L\<close> above
  0 the offset of level \<open>L - 1\<close> is the offset of level \<open>L\<close> plus what level \<open>L\<close> adds
  to the running offset, in 32-bit arithmetic. When what the levels above 0 add and the
  front padding fit together in 32 bits, the offset of level \<open>L - 1\<close> is not below the
  offset of level \<open>L\<close>, for every level \<open>L\<close> above 0.
\<close>

theorem offsets_non_decreasing:
  "offset (slices (accumulate_levels hw rsc) (last_level (base rsc))) = 0 \<and>
   (\<forall>L. 0 < L \<and> L \<le> last_level (base rsc) \<longrightarrow>
      offset (slices (vc5_setup_slices hw rsc) (L - 1)) =
        offset (slices (vc5_setup_slices hw rsc) L) + slice_total_size hw rsc L) \<and>
   ((\<Sum>k\<in>{0<..last_level (base rsc)}. unat (slice_total_size hw rsc k)) +
      unat (front_pad hw rsc) < 2 ^ 32 \<longrightarrow>
    (\<forall>L. 0 < L \<and> L \<le> last_level (base rsc) \<longrightarrow>
       offset (slices (vc5_setup_slices hw rsc) L) \<le>
         offset (slices (vc5_setup_slices hw rsc) (L - 1))))"
proof (intro conjI allI impI)
  show "offset (slices (accumulate_levels hw rsc) (last_level (base rsc))) = 0"
    by (simp add: accumulate_levels_slice mk_slice_sel level_offset_last)
next
  fix L
  assume "0 < L \<and> L \<le> last_level (base rsc)"
  then show "offset (slices (vc5_setup_slices hw rsc) (L - 1)) =
        offset (slices (vc5_setup_slices hw rsc) L) + slice_total_size hw rsc L"
    using vc5_setup_slices_offset_step [of L rsc hw] by blast
next
  fix L
  let ?n = "last_level (base rsc)"
  let ?T = "\<lambda>k. unat (slice_total_size hw rsc k)"
  assume fit: "(\<Sum>k\<in>{0<..?n}. ?T k) + unat (front_pad hw rsc) < 2 ^ 32"
    and L: "0 < L \<and> L \<le> ?n"
  have oL: "offset (slices (vc5_setup_slices hw rsc) L) = level_offset hw rsc L + front_pad hw rsc"
    using L by (simp add: vc5_setup_slices_slice mk_slice_sel)
  have step: "offset (slices (vc5_setup_slices hw rsc) (L - 1)) =
        offset (slices (vc5_setup_slices hw rsc) L) + slice_total_size hw rsc L"
    using L vc5_setup_slices_offset_step [of L rsc hw] by blast
  have "?T L + (\<Sum>k\<in>{L<..?n}. ?T k) \<le> (\<Sum>k\<in>{0<..?n}. ?T k)"
  proof -
    have "insert L {L<..?n} \<subseteq> {0<..?n}" using L by auto
    then have "(\<Sum>k\<in>insert L {L<..?n}. ?T k) \<le> (\<Sum>k\<in>{0<..?n}. ?T k)"
      by (intro sum_mono2) auto
    then show ?thesis by simp
  qed
  with fit have "(\<Sum>k\<in>{L<..?n}. ?T k) + unat (front_pad hw rsc) + ?T L < 2 ^ 32" by simp
  then have "unat (offset (slices (vc5_setup_slices hw rsc) L)) + ?T L < 2 ^ 32"
    using level_offset_no_wrap [OF fit, of L] L by (simp add: oL)
  then have "offset (slices (vc5_setup_slices hw rsc) L) \<le>
        offset (slices (vc5_setup_slices hw rsc) L) + slice_total_size hw rsc L"
    by (simp add: no_olen_add_nat)
  then show "offset (slices (vc5_setup_slices hw rsc) L) \<le>
        offset (slices (vc5_setup_slices hw rsc) (L - 1))"
    by (simp only: step)
qed

theorem offsets_non_decreasing_witness:
  "(\<Sum>k\<in>{0<..last_level (base rsc_mips)}. unat (slice_total_size v3d_hw rsc_mips k)) +
     unat (front_pad v3d_hw rsc_mips) = 90112 \<and>
   (90112 :: nat) < 2 ^ 32 \<and>
   (0::nat) < 1 \<and> 1 \<le> last_level (base rsc_mips) \<and>
   offset (slices (vc5_setup_slices v3d_hw rsc_mips) 1) = 24576 \<and>
   slice_total_size v3d_hw rsc_mips 1 = 65536 \<and>
   offset (slices (vc5_setup_slices v3d_hw rsc_mips) 0) = 90112 \<and>
   offset (slices (vc5_setup_slices v3d_hw rsc_mips) 1) \<le>
     offset (slices (vc5_setup_slices v3d_hw rsc_mips) 0)"
proof -
  have n: "last_level (base rsc_mips) = 4"
    by (simp add: rsc_mips_def sample_rsc_def sample_tmpl_def)
  have s: "{0<..4::nat} = {1, 2, 3, 4}" by auto
  have e: "slice_total_size v3d_hw rsc_mips 1 = 65536"
          "slice_total_size v3d_hw rsc_mips 2 = 16384"
          "slice_total_size v3d_hw rsc_mips 3 = 4096"
          "slice_total_size v3d_hw rsc_mips 4 = 1024"
          "front_pad v3d_hw rsc_mips = 3072"
          "offset (slices (vc5_setup_slices v3d_hw rsc_mips) 1) = 24576"
    by code_simp+
  have fit: "(\<Sum>k\<in>{0<..last_level (base rsc_mips)}. unat (slice_total_size v3d_hw rsc_mips k)) +
     unat (front_pad v3d_hw rsc_mips) = 90112"
    using e by (simp add: n s)
  note t = offsets_non_decreasing [of v3d_hw rsc_mips]
  have lt: "(\<Sum>k\<in>{0<..last_level (base rsc_mips)}. unat (slice_total_size v3d_hw rsc_mips k)) +
     unat (front_pad v3d_hw rsc_mips) < 2 ^ 32"
    by (simp add: fit)
  have st: "offset (slices (vc5_setup_slices v3d_hw rsc_mips) (1 - 1)) =
        offset (slices (vc5_setup_slices v3d_hw rsc_mips) 1) + slice_total_size v3d_hw rsc_mips 1"
    using t [THEN conjunct2, THEN conjunct1, rule_format, of 1] n by simp
  have le: "offset (slices (vc5_setup_slices v3d_hw rsc_mips) 1) \<le>
        offset (slices (vc5_setup_slices v3d_hw rsc_mips) (1 - 1))"
    using t [THEN conjunct2, THEN conjunct2, rule_format, OF lt, of 1] n by simp
  show ?thesis using fit n e st le by simp
qed

text \<open>
  When they do not fit the order fails: for the tiled volume of 1920 by 2048 by 2048
  texels at four bytes per texel, level 2 adds \<open>2^29\<close> bytes (512 slices of \<open>2^20\<close>
  bytes) and level 1 adds \<open>15 * 2^28\<close> bytes (1024 slices of 3932160 bytes), the running
  offset wraps around \<open>2^32\<close>, and level 0 is placed below level 1.
\<close>

theorem offsets_wrap_counterexample:
  "2 \<le> last_level (base rsc_wrap) \<and>
   offset (slices (vc5_setup_slices v3d_hw rsc_wrap) 2) = 0 \<and>
   offset (slices (vc5_setup_slices v3d_hw rsc_wrap) 1) = 536870912 \<and>
   slice_size (slices (vc5_setup_slices v3d_hw rsc_wrap) 1) = 3932160 \<and>
   level_depth rsc_wrap 1 = 1024 \<and>
   offset (slices (vc5_setup_slices v3d_hw rsc_wrap) 0) = 268435456 \<and>
   \<not> offset (slices (vc5_setup_slices v3d_hw rsc_wrap) 1) \<le>
       offset (slices (vc5_setup_slices v3d_hw rsc_wrap) (1 - 1))"
  by code_simp

section \<open>The front padding to 4096 bytes\<close>





section \<open>The rounding of level 1 to a page\<close>

lemma sum_atMost_first:
  fixes f :: "nat \<Rightarrow> u32"
  shows "(\<Sum>k\<le>n. f k) = (\<Sum>k\<in>{0<..n}. f k) + f 0"
proof -
  have "{..n} = insert 0 {0<..n}" by auto
  then show ?thesis by (simp add: add.commute)
qed

lemma slice_total_size_accumulate:
  assumes "i \<le> last_level (base rsc)"
  shows "slice_total_size hw rsc i =
     (let a = accumulate_levels hw rsc;
          uif_block_w = vc5_utile_width hw (cpp rsc) * 2;
          uif_block_h = vc5_utile_height hw (cpp rsc) * 2;
          contribution = slice_size (slices a i) * level_depth rsc i
      in if i = 1 \<and> lc_width (level_layout hw rsc i) > 4 * uif_block_w \<and>
            padded_height (slices a i) > PAGE_CACHE_MINUS_1_5_UB_ROWS hw * uif_block_h
         then align contribution (VC5_UIFCFG_PAGE_SIZE hw) else contribution)"
  unfolding slice_total_size_def Let_def
  by (simp only: accumulate_levels_slice [OF assms] mk_slice_sel)

text \<open>
  C9, as the code has it: in the layout after the loop, the offset of level \<open>i - 1\<close> is
  the offset of level \<open>i\<close> plus the size of level \<open>i\<close> times its depth, and that
  product is rounded up to the page size first exactly when \<open>i\<close> is 1 and the padded
  width of level 1 exceeds four UIF block columns and its padded height exceeds the
  page-cache rows less one and a half pages, in texels; level 0 adds its size times
  its depth to the total size, never rounded. Nothing is said of the offset of level 0
  being a multiple of the page size.
\<close>

theorem level1_page_rounding:
  assumes "0 < i" and "i \<le> last_level (base rsc)"
  shows "let a = accumulate_levels hw rsc;
             uif_block_w = vc5_utile_width hw (cpp rsc) * 2;
             uif_block_h = vc5_utile_height hw (cpp rsc) * 2;
             contribution = slice_size (slices a i) * level_depth rsc i
         in offset (slices a (i - 1)) =
              offset (slices a i) +
              (if i = 1 \<and> lc_width (level_layout hw rsc i) > 4 * uif_block_w \<and>
                  padded_height (slices a i) > PAGE_CACHE_MINUS_1_5_UB_ROWS hw * uif_block_h
               then align contribution (VC5_UIFCFG_PAGE_SIZE hw) else contribution) \<and>
            rsc_size a = offset (slices a 0) + slice_size (slices a 0) * level_depth rsc 0"
proof -
  have i1: "i - 1 \<le> last_level (base rsc)" using assms by simp
  have z: "0 \<le> last_level (base rsc)" by simp
  have A: "offset (slices (accumulate_levels hw rsc) (i - 1)) =
           offset (slices (accumulate_levels hw rsc) i) + slice_total_size hw rsc i"
    using level_offset_step [OF assms, of hw]
    by (simp only: accumulate_levels_slice [OF assms(2)] accumulate_levels_slice [OF i1]
          mk_slice_sel)
  have B: "rsc_size (accumulate_levels hw rsc) =
           offset (slices (accumulate_levels hw rsc) 0) + slice_total_size hw rsc 0"
    by (simp add: accumulate_levels_eq sum_atMost_first mk_slice_sel level_offset_def)
  have C: "slice_total_size hw rsc 0 =
           slice_size (slices (accumulate_levels hw rsc) 0) * level_depth rsc 0"
    using slice_total_size_accumulate [OF z, of hw] by (simp add: Let_def)
  show ?thesis
    using A B C slice_total_size_accumulate [OF assms(2), of hw]
    by (simp only: Let_def)
qed

theorem level1_page_rounding_witness:
  "(0::nat) < 1 \<and> 1 \<le> last_level (base rsc_mips) \<and>
   offset (slices (accumulate_levels v3d_hw rsc_mips) 1) = 21504 \<and>
   slice_size (slices (accumulate_levels v3d_hw rsc_mips) 1) * level_depth rsc_mips 1 = 65536 \<and>
   offset (slices (accumulate_levels v3d_hw rsc_mips) (1 - 1)) = 87040"
proof -
  have h2: "1 \<le> last_level (base rsc_mips)"
    by (simp add: rsc_mips_def sample_rsc_def sample_tmpl_def)
  have e: "offset (slices (accumulate_levels v3d_hw rsc_mips) 1) = 21504"
          "slice_size (slices (accumulate_levels v3d_hw rsc_mips) 1) = 65536"
          "level_depth rsc_mips 1 = 1"
          "lc_width (level_layout v3d_hw rsc_mips 1) = 64"
          "padded_height (slices (accumulate_levels v3d_hw rsc_mips) 1) = 256"
          "vc5_utile_width v3d_hw (cpp rsc_mips) = 4"
          "vc5_utile_height v3d_hw (cpp rsc_mips) = 4"
          "PAGE_CACHE_MINUS_1_5_UB_ROWS v3d_hw = 26"
          "VC5_UIFCFG_PAGE_SIZE v3d_hw = 4096"
          "align 65536 4096 = 65536"
    by code_simp+
  show ?thesis
    using level1_page_rounding [OF zero_less_one h2, of v3d_hw] h2 e by (simp add: Let_def)
qed

text \<open>
  The offset of level 0 need not be a multiple of the page size when level 1 is
  rounded: for the tiled surface of 128 by 512 texels with five levels, level 1 is 64 by
  256 texels, beyond both thresholds (32 and 208), and level 0 starts at 87040 before
  the front padding, 1024 bytes into a page, because levels 2 to 4 take 21504 bytes.
\<close>

theorem level0_not_page_aligned_counterexample:
  "1 \<le> last_level (base rsc_mips) \<and>
   lc_width (level_layout v3d_hw rsc_mips 1) = 64 \<and>
   4 * (vc5_utile_width v3d_hw (cpp rsc_mips) * 2) = 32 \<and>
   padded_height (slices (accumulate_levels v3d_hw rsc_mips) 1) = 256 \<and>
   PAGE_CACHE_MINUS_1_5_UB_ROWS v3d_hw * (vc5_utile_height v3d_hw (cpp rsc_mips) * 2) = 208 \<and>
   VC5_UIFCFG_PAGE_SIZE v3d_hw = 4096 \<and>
   offset (slices (accumulate_levels v3d_hw rsc_mips) 0) = 87040 \<and>
   unat (offset (slices (accumulate_levels v3d_hw rsc_mips) 0)) mod 4096 = 1024"
proof -
  have h: "1 \<le> last_level (base rsc_mips)"
    by (simp add: rsc_mips_def sample_rsc_def sample_tmpl_def)
  have e: "lc_width (level_layout v3d_hw rsc_mips 1) = 64"
          "4 * (vc5_utile_width v3d_hw (cpp rsc_mips) * 2) = 32"
          "padded_height (slices (accumulate_levels v3d_hw rsc_mips) 1) = 256"
          "PAGE_CACHE_MINUS_1_5_UB_ROWS v3d_hw * (vc5_utile_height v3d_hw (cpp rsc_mips) * 2) = 208"
          "VC5_UIFCFG_PAGE_SIZE v3d_hw = 4096"
          "offset (slices (accumulate_levels v3d_hw rsc_mips) 0) = 87040"
    by code_simp+
  show ?thesis using h e by simp
qed

section \<open>The dimensions of a level\<close>

lemma level_end:
  assumes "i \<le> last_level (base rsc)"
  shows "(if i = 0 then rsc_size (accumulate_levels hw rsc)
          else offset (slices (accumulate_levels hw rsc) (i - 1))) =
         offset (slices (accumulate_levels hw rsc) i) + slice_total_size hw rsc i"
proof (cases "i = 0")
  case True
  then show ?thesis
    by (simp add: accumulate_levels_eq sum_atMost_first mk_slice_sel level_offset_def)
next
  case False
  then have p: "0 < i" by simp
  then have i1: "i - 1 \<le> last_level (base rsc)" using assms by simp
  have "offset (slices (accumulate_levels hw rsc) (i - 1)) =
        offset (slices (accumulate_levels hw rsc) i) + slice_total_size hw rsc i"
    using level_offset_step [OF p assms, of hw]
    by (simp only: accumulate_levels_slice [OF assms] accumulate_levels_slice [OF i1]
          mk_slice_sel)
  then show ?thesis using False by simp
qed

lemma level_tiling_raster:
  "\<not> tiled rsc \<Longrightarrow> target (base rsc) \<noteq> PIPE_TEXTURE_1D \<Longrightarrow>
   level_tiling hw rsc i w h =
     \<lparr>lc_tiling = VC5_TILING_RASTER, lc_ub_pad = None, lc_width = w, lc_height = h\<rparr>"
  by (simp add: level_tiling_def Let_def)

lemma level_dims_explicit:
  "level_dims rsc i =
     (if i < 2 then u_minify (width0 (base rsc)) i
      else u_minify (2 * util_next_power_of_two (u_minify (width0 (base rsc)) 1)) i,
      if i < 2 then u_minify (height0 (base rsc)) i
      else u_minify (2 * util_next_power_of_two (u_minify (height0 (base rsc)) 1)) i,
      if i < 1 then u_minify (depth0 (base rsc)) i
      else u_minify (2 * util_next_power_of_two (u_minify (depth0 (base rsc)) 1)) i)"
  by (simp add: level_dims_def Let_def)

text \<open>
  C4: the dimensions that the layout of level \<open>i\<close> is computed from. Before any
  alignment, width and height are the level-0 dimensions minified by \<open>i\<close> when
  \<open>i < 2\<close>, and the minification by \<open>i\<close> of twice the next power of two of the dimension
  minified once when \<open>i \<ge> 2\<close>; the depth uses the literal dimension only when
  \<open>i < 1\<close> and the power-of-two padded one from level 1 on. The slice that
  \<open>vc5_setup_slices\<close> stores for the level is the tiling branch applied to this width
  and height (doubled for MSAA and divided by the format's block), so that for a linear
  resource other than a 1D texture the stride is that width times the bytes per texel
  and the padded height is that height; and the running offset advances by the size of
  the slice times this depth (rounded to a page at level 1 under its thresholds).
\<close>

theorem level_dims_pot:
  assumes "i \<le> last_level (base rsc)"
  shows "let prsc = base rsc;
             a = accumulate_levels hw rsc;
             r = vc5_setup_slices hw rsc;
             pot_width = 2 * util_next_power_of_two (u_minify (width0 prsc) 1);
             pot_height = 2 * util_next_power_of_two (u_minify (height0 prsc) 1);
             pot_depth = 2 * util_next_power_of_two (u_minify (depth0 prsc) 1);
             width_i = (if i < 2 then u_minify (width0 prsc) i else u_minify pot_width i);
             height_i = (if i < 2 then u_minify (height0 prsc) i else u_minify pot_height i);
             depth_i = (if i < 1 then u_minify (depth0 prsc) i else u_minify pot_depth i);
             msaa = (1 < nr_samples prsc);
             blocks_w = DIV_ROUND_UP (if msaa then width_i * 2 else width_i)
                          (format_blockwidth (format prsc));
             blocks_h = DIV_ROUND_UP (if msaa then height_i * 2 else height_i)
                          (format_blockheight (format prsc));
             lc = level_tiling hw rsc i blocks_w blocks_h;
             total = slice_size (slices r i) * depth_i
         in level_dims rsc i = (width_i, height_i, depth_i) \<and>
            stride (slices r i) = lc_width lc * cpp rsc \<and>
            padded_height (slices r i) = lc_height lc \<and>
            slice_size (slices r i) = lc_height lc * (lc_width lc * cpp rsc) \<and>
            tiling (slices r i) = lc_tiling lc \<and>
            (\<not> tiled rsc \<and> target prsc \<noteq> PIPE_TEXTURE_1D \<longrightarrow>
               stride (slices r i) = blocks_w * cpp rsc \<and>
               padded_height (slices r i) = blocks_h) \<and>
            (if i = 0 then rsc_size a else offset (slices a (i - 1))) =
              offset (slices a i) +
              (if i = 1 \<and> lc_width lc > 4 * (vc5_utile_width hw (cpp rsc) * 2) \<and>
                  lc_height lc >
                    PAGE_CACHE_MINUS_1_5_UB_ROWS hw * (vc5_utile_height hw (cpp rsc) * 2)
               then align total (VC5_UIFCFG_PAGE_SIZE hw) else total)"
proof -
  have lay: "level_layout hw rsc i =
      level_tiling hw rsc i
        (DIV_ROUND_UP (if 1 < nr_samples (base rsc) then fst (level_dims rsc i) * 2
                       else fst (level_dims rsc i))
           (format_blockwidth (format (base rsc))))
        (DIV_ROUND_UP (if 1 < nr_samples (base rsc) then fst (snd (level_dims rsc i)) * 2
                       else fst (snd (level_dims rsc i)))
           (format_blockheight (format (base rsc))))"
    by (simp add: level_layout_def level_blocks_def Let_def)
  have dep: "level_depth rsc i = snd (snd (level_dims rsc i))"
    by (simp add: level_depth_def)
  have sl: "slices (vc5_setup_slices hw rsc) i =
      mk_slice hw rsc i (ub_pad (slices rsc i)) (level_offset hw rsc i + front_pad hw rsc)"
    by (rule vc5_setup_slices_slice [OF assms])
  have en: "(if i = 0 then rsc_size (accumulate_levels hw rsc)
          else offset (slices (accumulate_levels hw rsc) (i - 1))) =
         offset (slices (accumulate_levels hw rsc) i) +
         (let lc = level_layout hw rsc i;
              total = lc_height lc * (lc_width lc * cpp rsc) * level_depth rsc i
          in if i = 1 \<and> lc_width lc > 4 * (vc5_utile_width hw (cpp rsc) * 2) \<and>
                lc_height lc >
                  PAGE_CACHE_MINUS_1_5_UB_ROWS hw * (vc5_utile_height hw (cpp rsc) * 2)
             then align total (VC5_UIFCFG_PAGE_SIZE hw) else total)"
    using level_end [OF assms, of hw] by (simp only: slice_total_size_def)
  show ?thesis
    unfolding Let_def
    using en
    by (simp only: sl mk_slice_sel lay dep level_dims_explicit fst_conv snd_conv Let_def)
       (simp add: level_tiling_raster)
qed

theorem level_dims_pot_witness:
  "2 \<le> last_level (base rsc_raster_3d) \<and>
   \<not> tiled rsc_raster_3d \<and> target (base rsc_raster_3d) \<noteq> PIPE_TEXTURE_1D \<and>
   level_dims rsc_raster_3d 2 = (4, 4, 4) \<and>
   stride (slices (vc5_setup_slices v3d_hw rsc_raster_3d) 2) = 16 \<and>
   padded_height (slices (vc5_setup_slices v3d_hw rsc_raster_3d) 2) = 4 \<and>
   slice_size (slices (vc5_setup_slices v3d_hw rsc_raster_3d) 2) = 64 \<and>
   offset (slices (accumulate_levels v3d_hw rsc_raster_3d) 2) = 32 \<and>
   offset (slices (accumulate_levels v3d_hw rsc_raster_3d) (2 - 1)) = 288"
proof -
  have h: "2 \<le> last_level (base rsc_raster_3d)"
    by (simp add: rsc_raster_3d_def sample_rsc_def sample_tmpl_def)
  have f: "width0 (base rsc_raster_3d) = 10" "height0 (base rsc_raster_3d) = 10"
          "depth0 (base rsc_raster_3d) = 10" "nr_samples (base rsc_raster_3d) = 1"
          "format_blockwidth (format (base rsc_raster_3d)) = 1"
          "format_blockheight (format (base rsc_raster_3d)) = 1"
          "cpp rsc_raster_3d = 4" "\<not> tiled rsc_raster_3d"
          "target (base rsc_raster_3d) \<noteq> PIPE_TEXTURE_1D"
    by (simp_all add: rsc_raster_3d_def sample_rsc_def sample_tmpl_def rgba8_def)
  have m: "u_minify 10 1 = 5" "util_next_power_of_two 5 = 8" "u_minify 16 2 = 4"
          "DIV_ROUND_UP 4 1 = 4"
          "offset (slices (accumulate_levels v3d_hw rsc_raster_3d) 2) = 32"
    by code_simp+
  have t: "level_tiling v3d_hw rsc_raster_3d 2 4 4 =
           \<lparr>lc_tiling = VC5_TILING_RASTER, lc_ub_pad = None, lc_width = 4, lc_height = 4\<rparr>"
    by (rule level_tiling_raster [OF f(8) f(9)])
  show ?thesis
    using level_dims_pot [OF h, of v3d_hw] h f m t by (simp add: Let_def)
qed

section \<open>The offset of a layer\<close>

text \<open>
  C10, as the code has it: on the layout that \<open>vc5_setup_slices\<close> computes, the
  offset of layer \<open>z\<close> of level \<open>L\<close> is \<open>offset(L) + z * size(L)\<close> for a 3D target,
  with the size of the slice of level \<open>L\<close> itself as the step, and
  \<open>offset(L) + z * cube_map_stride\<close> for every other target; the stored stride of a 3D
  target is the size of the level-0 slice. The step of a level above 0 may differ from
  that stride or be equal to it.
\<close>

theorem layer_offset_step:
  "vc5_layer_offset (vc5_setup_slices hw rsc) level layer =
     (if target (base rsc) = PIPE_TEXTURE_3D
      then offset (slices (vc5_setup_slices hw rsc) level) +
           layer * slice_size (slices (vc5_setup_slices hw rsc) level)
      else offset (slices (vc5_setup_slices hw rsc) level) +
           layer * cube_map_stride (vc5_setup_slices hw rsc)) \<and>
   cube_map_stride (vc5_setup_slices hw rsc) =
     (if target (base rsc) = PIPE_TEXTURE_3D
      then slice_size (slices (vc5_setup_slices hw rsc) 0)
      else align (offset (slices (vc5_setup_slices hw rsc) 0) +
                  slice_size (slices (vc5_setup_slices hw rsc) 0)) 64)"
  by (simp add: vc5_layer_offset_def Let_def vc5_setup_slices_static)
     (simp add: vc5_setup_slices_def setup_cube_map_stride_def Let_def
        page_align_slices_static accumulate_levels_static)

theorem layer_offset_step_witness:
  "target (base rsc_dims) = PIPE_TEXTURE_3D \<and>
   offset (slices (vc5_setup_slices v3d_hw rsc_dims) 1) = 2048 \<and>
   slice_size (slices (vc5_setup_slices v3d_hw rsc_dims) 1) = 256 \<and>
   cube_map_stride (vc5_setup_slices v3d_hw rsc_dims) = 1024 \<and>
   vc5_layer_offset (vc5_setup_slices v3d_hw rsc_dims) 1 3 = 2816"
proof -
  have e: "target (base rsc_dims) = PIPE_TEXTURE_3D"
          "offset (slices (vc5_setup_slices v3d_hw rsc_dims) 1) = 2048"
          "slice_size (slices (vc5_setup_slices v3d_hw rsc_dims) 1) = 256"
          "slice_size (slices (vc5_setup_slices v3d_hw rsc_dims) 0) = 1024"
    by code_simp+
  show ?thesis
    using layer_offset_step [of v3d_hw rsc_dims 1 3] e by simp
qed

text \<open>
  The step of a level above 0 is not always different from the stored stride: in the
  tiled volume of 4 by 4 by 4 texels both level 0 and level 1 are one micro-tile of 64
  bytes, so the step of level 1 is the stride between the slices of level 0.
\<close>

theorem layer_step_equals_stride_counterexample:
  "target (base rsc_3d) = PIPE_TEXTURE_3D \<and> 1 \<le> last_level (base rsc_3d) \<and>
   slice_size (slices (vc5_setup_slices v3d_hw rsc_3d) 1) = 64 \<and>
   cube_map_stride (vc5_setup_slices v3d_hw rsc_3d) = 64 \<and>
   vc5_layer_offset (vc5_setup_slices v3d_hw rsc_3d) 1 1 =
     offset (slices (vc5_setup_slices v3d_hw rsc_3d) 1) +
     1 * cube_map_stride (vc5_setup_slices v3d_hw rsc_3d)"
  by code_simp

section \<open>The stride check of the import\<close>

lemma bo_cong_slice:
  "slices (vc5_setup_slices hw (r\<lparr>bo := b\<rparr>)) 0 = slices (vc5_setup_slices hw r) 0"
proof -
  have a: "mk_slice hw (r\<lparr>bo := b\<rparr>) 0 = mk_slice hw r 0"
    by (rule ext, rule ext, rule mk_slice_cong) simp_all
  have t: "\<And>k. slice_total_size hw (r\<lparr>bo := b\<rparr>) k = slice_total_size hw r k"
    by (rule slice_total_size_cong) simp_all
  have "0 \<le> last_level (base r)" by simp
  then show ?thesis
    by (simp add: vc5_setup_slices_slice a front_pad_def level_offset_def t)
qed

text \<open>
  C6, as the code has it: an import that succeeds returns a resource whose level-0
  stride is the stride of the handle. When the resource is set up, the modifier of the
  handle is linear, its offset is 0, and its type is shared or a file descriptor whose
  buffer object opens, the import computes the linear layout of the template and
  succeeds with it exactly when the stride of the handle is the stride of level 0; with
  any other stride it fails with \<open>IncompatibleLayout\<close>. An import that fails an earlier
  guard fails with the error of that guard, whatever its stride: the error of the set-up,
  \<open>UnsupportedModifier\<close> for a modifier that is not linear, \<open>UnsupportedOffset\<close> for an
  offset other than 0, \<open>UnsupportedHandleType\<close> for a KMS handle, and \<open>BoOpenFailed\<close>
  when the buffer object does not open.
\<close>

theorem import_stride_check:
  "(vc5_resource_from_handle hw env tmpl whandle = Inr r \<longrightarrow>
      wh_stride whandle = stride (slices r 0)) \<and>
   (vc5_resource_setup env tmpl = Inr rsc_setup \<and>
    wh_modifier whandle = DRM_FORMAT_MOD_LINEAR env \<and>
    wh_offset whandle = 0 \<and>
    ((wh_type whandle = DRM_API_HANDLE_TYPE_SHARED \<and>
      vc5_bo_open_name env (wh_handle whandle) (wh_stride whandle) = Some b) \<or>
     (wh_type whandle = DRM_API_HANDLE_TYPE_FD \<and>
      vc5_bo_open_dmabuf env (wh_handle whandle) (wh_stride whandle) = Some b)) \<longrightarrow>
    vc5_resource_from_handle hw env tmpl whandle =
      (if wh_stride whandle =
          stride (slices (vc5_setup_slices hw (rsc_setup\<lparr>tiled := False\<rparr>)) 0)
       then Inr (vc5_setup_slices hw (rsc_setup\<lparr>tiled := False, bo := Some b\<rparr>))
       else Inl IncompatibleLayout)) \<and>
   (vc5_resource_setup env tmpl = Inl e \<longrightarrow>
    vc5_resource_from_handle hw env tmpl whandle = Inl e) \<and>
   (vc5_resource_setup env tmpl = Inr rsc_setup \<and>
    wh_modifier whandle \<noteq> DRM_FORMAT_MOD_LINEAR env \<longrightarrow>
    vc5_resource_from_handle hw env tmpl whandle = Inl UnsupportedModifier) \<and>
   (vc5_resource_setup env tmpl = Inr rsc_setup \<and>
    wh_modifier whandle = DRM_FORMAT_MOD_LINEAR env \<and>
    wh_offset whandle \<noteq> 0 \<longrightarrow>
    vc5_resource_from_handle hw env tmpl whandle = Inl UnsupportedOffset) \<and>
   (vc5_resource_setup env tmpl = Inr rsc_setup \<and>
    wh_modifier whandle = DRM_FORMAT_MOD_LINEAR env \<and>
    wh_offset whandle = 0 \<and>
    wh_type whandle = DRM_API_HANDLE_TYPE_KMS \<longrightarrow>
    vc5_resource_from_handle hw env tmpl whandle = Inl UnsupportedHandleType) \<and>
   (vc5_resource_setup env tmpl = Inr rsc_setup \<and>
    wh_modifier whandle = DRM_FORMAT_MOD_LINEAR env \<and>
    wh_offset whandle = 0 \<and>
    ((wh_type whandle = DRM_API_HANDLE_TYPE_SHARED \<and>
      vc5_bo_open_name env (wh_handle whandle) (wh_stride whandle) = None) \<or>
     (wh_type whandle = DRM_API_HANDLE_TYPE_FD \<and>
      vc5_bo_open_dmabuf env (wh_handle whandle) (wh_stride whandle) = None)) \<longrightarrow>
    vc5_resource_from_handle hw env tmpl whandle = Inl BoOpenFailed)"
proof (intro conjI impI)
  assume "vc5_resource_from_handle hw env tmpl whandle = Inr r"
  then show "wh_stride whandle = stride (slices r 0)"
    by (auto simp add: vc5_resource_from_handle_def Let_def
          split: sum.splits if_splits option.splits drm_api_handle_type.splits)
qed (auto simp add: vc5_resource_from_handle_def Let_def bo_cong_slice)

lemma setup_tmpl_linear:
  "vc5_resource_setup sample_env tmpl_linear = Inr (sample_rsc tmpl_linear False)"
  by (simp add: vc5_resource_setup_def sample_env_def tmpl_linear_def sample_tmpl_def
        sample_rsc_def rgba8_def Let_def)

lemma stride_tmpl_linear:
  "stride (slices (vc5_setup_slices v3d_hw ((sample_rsc tmpl_linear False)\<lparr>tiled := False\<rparr>)) 0) = 64"
  by code_simp

theorem import_stride_check_witness:
  "vc5_resource_setup sample_env tmpl_linear = Inr (sample_rsc tmpl_linear False) \<and>
   wh_modifier (whandle_of 64 0) = DRM_FORMAT_MOD_LINEAR sample_env \<and>
   wh_offset (whandle_of 64 0) = 0 \<and>
   wh_type (whandle_of 64 0) = DRM_API_HANDLE_TYPE_FD \<and>
   vc5_bo_open_dmabuf sample_env (wh_handle (whandle_of 64 0)) (wh_stride (whandle_of 64 0)) = Some 7 \<and>
   vc5_resource_from_handle v3d_hw sample_env tmpl_linear (whandle_of 64 0) =
     Inr (vc5_setup_slices v3d_hw ((sample_rsc tmpl_linear False)\<lparr>tiled := False, bo := Some 7\<rparr>)) \<and>
   stride (slices (vc5_setup_slices v3d_hw
     ((sample_rsc tmpl_linear False)\<lparr>tiled := False, bo := Some 7\<rparr>)) 0) = 64 \<and>
   vc5_resource_from_handle v3d_hw sample_env tmpl_linear (whandle_of 68 0) =
     Inl IncompatibleLayout \<and>
   wh_offset ((whandle_of 64 0)\<lparr>wh_offset := 4\<rparr>) \<noteq> 0 \<and>
   vc5_resource_from_handle v3d_hw sample_env tmpl_linear ((whandle_of 64 0)\<lparr>wh_offset := 4\<rparr>) =
     Inl UnsupportedOffset \<and>
   vc5_resource_from_handle v3d_hw sample_env tmpl_linear
     ((whandle_of 64 0)\<lparr>wh_type := DRM_API_HANDLE_TYPE_KMS\<rparr>) = Inl UnsupportedHandleType"
proof -
  have h: "wh_modifier (whandle_of s 0) = DRM_FORMAT_MOD_LINEAR sample_env"
          "wh_offset (whandle_of s 0) = 0"
          "wh_type (whandle_of s 0) = DRM_API_HANDLE_TYPE_FD"
          "vc5_bo_open_dmabuf sample_env (wh_handle (whandle_of s 0)) (wh_stride (whandle_of s 0)) = Some 7"
          "wh_stride (whandle_of s 0) = s"
    for s
    by (simp_all add: whandle_of_def sample_env_def)
  let ?r = "vc5_setup_slices v3d_hw ((sample_rsc tmpl_linear False)\<lparr>tiled := False, bo := Some 7\<rparr>)"
  note t64 = import_stride_check [where hw = v3d_hw and env = sample_env and tmpl = tmpl_linear
      and whandle = "whandle_of 64 0" and rsc_setup = "sample_rsc tmpl_linear False" and b = 7
      and r = ?r]
  note t68 = import_stride_check [where hw = v3d_hw and env = sample_env and tmpl = tmpl_linear
      and whandle = "whandle_of 68 0" and rsc_setup = "sample_rsc tmpl_linear False" and b = 7
      and r = ?r]
  note tof = import_stride_check [where hw = v3d_hw and env = sample_env and tmpl = tmpl_linear
      and whandle = "(whandle_of 64 0)\<lparr>wh_offset := 4\<rparr>"
      and rsc_setup = "sample_rsc tmpl_linear False"]
  note tkm = import_stride_check [where hw = v3d_hw and env = sample_env and tmpl = tmpl_linear
      and whandle = "(whandle_of 64 0)\<lparr>wh_type := DRM_API_HANDLE_TYPE_KMS\<rparr>"
      and rsc_setup = "sample_rsc tmpl_linear False"]
  have a: "vc5_resource_from_handle v3d_hw sample_env tmpl_linear (whandle_of 64 0) = Inr ?r"
    using t64 setup_tmpl_linear h [of 64] stride_tmpl_linear by simp
  have b: "stride (slices ?r 0) = 64"
    using t64 a h [of 64] by simp
  have c: "vc5_resource_from_handle v3d_hw sample_env tmpl_linear (whandle_of 68 0) =
           Inl IncompatibleLayout"
    using t68 setup_tmpl_linear h [of 68] stride_tmpl_linear by simp
  have d: "vc5_resource_from_handle v3d_hw sample_env tmpl_linear
             ((whandle_of 64 0)\<lparr>wh_offset := 4\<rparr>) = Inl UnsupportedOffset"
    using tof setup_tmpl_linear h [of 64] by simp
  have k: "vc5_resource_from_handle v3d_hw sample_env tmpl_linear
             ((whandle_of 64 0)\<lparr>wh_type := DRM_API_HANDLE_TYPE_KMS\<rparr>) =
           Inl UnsupportedHandleType"
    using tkm setup_tmpl_linear h [of 64] by simp
  show ?thesis using setup_tmpl_linear h [of 64] a b c d k by simp
qed

text \<open>
  The stride alone does not decide the import: a handle whose stride is the stride of
  level 0 but whose modifier is not linear is refused before the layout is computed.
\<close>

theorem import_modifier_counterexample:
  "wh_stride (whandle_of 64 1) =
     stride (slices (vc5_setup_slices v3d_hw ((sample_rsc tmpl_linear False)\<lparr>tiled := False\<rparr>)) 0) \<and>
   vc5_resource_setup sample_env tmpl_linear = Inr (sample_rsc tmpl_linear False) \<and>
   vc5_resource_from_handle v3d_hw sample_env tmpl_linear (whandle_of 64 1) =
     Inl UnsupportedModifier"
  using stride_tmpl_linear setup_tmpl_linear
  by (simp add: vc5_resource_from_handle_def whandle_of_def sample_env_def)

end
